theory Spec2Isabelle
  imports
    Complex_Main
    "HOL-Library.Char_ord"
    "HOL-Library.List_Lexorder"
    "HOL-Library.AList"
    "HOL-Library.Sublist"
begin

section \<open>BudgetAI backend: the aggregation core of \<open>backend/server.py\<close>\<close>

text \<open>
  The handlers of \<open>server.py\<close> are embedded as functions that take the stored state
  and return a result together with the state afterwards. An exception raised by a
  handler is the \<open>Inl\<close> branch of its result.

  Conventions of the embedding:
  \<^item> amounts are exact rationals (the rounding of Python floats is not modelled);
  \<^item> strings are lists of characters, compared lexicographically by character code,
    which is the simple binary comparison the document store applies to strings and the
    order of Python's \<open>str\<close>;
  \<^item> a collection is the list of its documents in insertion order;
  \<^item> the authenticated user is represented by its \<open>id\<close>; generated identifiers and
    the wall clock are parameters of the handlers that read them.
\<close>

subsection \<open>Documents and request bodies\<close>

datatype val = Str string | Num rat

datatype error =
    HTTPException nat string
  | OperationFailure
  | TypeError
  | KeyError

record transaction =
  tx_id :: string
  tx_user_id :: string
  tx_type :: string
  tx_amount :: rat
  tx_category :: string
  tx_description :: "string option"
  tx_date :: string
  tx_notes :: "string option"
  tx_created_at :: string

record budget =
  bg_id :: string
  bg_user_id :: string
  bg_category :: string
  bg_amount :: rat
  bg_month :: string

record db =
  transactions :: "transaction list"
  budgets :: "budget list"

text \<open>\<open>TransactionCreate\<close>, \<open>TransactionUpdate\<close>, \<open>BudgetCreate\<close>, \<open>BudgetUpdate\<close>
  and \<open>BudgetResponse\<close>.\<close>

record transaction_create =
  tc_type :: string
  tc_amount :: rat
  tc_category :: string
  tc_description :: "string option"
  tc_date :: string
  tc_notes :: "string option"

record transaction_update =
  tu_type :: "string option"
  tu_amount :: "rat option"
  tu_category :: "string option"
  tu_description :: "string option"
  tu_date :: "string option"
  tu_notes :: "string option"

record budget_create =
  bc_category :: string
  bc_amount :: rat
  bc_month :: string

record budget_update =
  bu_amount :: "rat option"
  bu_month :: "string option"

record budget_response =
  br_id :: string
  br_user_id :: string
  br_category :: string
  br_amount :: rat
  br_month :: string
  br_spent :: rat

subsection \<open>The document store: regular expressions, grouping, sorting\<close>

text \<open>
  Every \<open>$regex\<close> of the handlers below is \<open>'^' + month\<close> with the month spliced in
  unescaped, so the month is read as a pattern. The store's regular-expression engine is
  a library outside the repository; its behaviour is fixed here on the patterns the
  verification needs and is a parameter (\<open>regex_engine\<close>) elsewhere:
  \<^item> a pattern \<open>^\<close> followed by ordinary characters and dots is anchored at the start of
    the subject; an ordinary character matches itself and a dot matches any character but
    a line feed;
  \<^item> a pattern with an opening parenthesis that has no closing parenthesis, backslash or
    bracket anywhere is rejected by the engine, and the query fails;
  \<^item> any other pattern is handed to the parameter, which returns the compiled matcher
    or \<open>None\<close> when it rejects the pattern.
\<close>

type_synonym regex_engine = "string \<Rightarrow> (string \<Rightarrow> bool) option"

datatype regex_atom = Lit char | AnyChar

definition regex_meta :: "char list" where
  "regex_meta =
     [CHR 0x5C, CHR ''^'', CHR ''$'', CHR ''.'', CHR ''['', CHR '']'', CHR ''|'',
      CHR ''('', CHR '')'', CHR ''?'', CHR ''*'', CHR ''+'', CHR ''{'', CHR ''}'']"

fun parse_plain :: "string \<Rightarrow> regex_atom list option" where
  "parse_plain [] = Some []"
| "parse_plain (c # cs) =
     (if c = CHR ''.'' then map_option ((#) AnyChar) (parse_plain cs)
      else if c \<in> set regex_meta then None
      else map_option ((#) (Lit c)) (parse_plain cs))"

fun match_atoms :: "regex_atom list \<Rightarrow> string \<Rightarrow> bool" where
  "match_atoms [] s = True"
| "match_atoms (a # as) [] = False"
| "match_atoms (Lit c # as) (d # ds) = (c = d \<and> match_atoms as ds)"
| "match_atoms (AnyChar # as) (d # ds) = (d \<noteq> CHR 0x0A \<and> match_atoms as ds)"

definition unclosed_group :: "string \<Rightarrow> bool" where
  "unclosed_group pat \<longleftrightarrow>
     CHR ''('' \<in> set pat \<and> CHR '')'' \<notin> set pat \<and> CHR 0x5C \<notin> set pat \<and> CHR ''['' \<notin> set pat"

definition mongo_regex :: "regex_engine \<Rightarrow> string \<Rightarrow> (string \<Rightarrow> bool) option" where
  "mongo_regex eng pat =
     (case (case pat of [] \<Rightarrow> None
             | c # rest \<Rightarrow> if c = CHR ''^'' then parse_plain rest else None) of
        Some atoms \<Rightarrow> Some (match_atoms atoms)
      | None \<Rightarrow> if unclosed_group pat then None else eng pat)"

text \<open>An engine that rejects every pattern left to it; used to close concrete examples,
  all of which stay inside the patterns fixed above.\<close>

definition no_engine :: regex_engine where
  "no_engine pat = None"

text \<open>\<open>{'$group': {'_id': None, 'total': {'$sum': f}}}\<close>: one group holding the sum, and
  no group at all when no document reaches the stage.\<close>

definition group_total :: "('a \<Rightarrow> rat) \<Rightarrow> 'a list \<Rightarrow> rat list" where
  "group_total f docs = (if docs = [] then [] else [sum_list (map f docs)])"

text \<open>\<open>{'$group': {'_id': key, 'total': {'$sum': f}}}\<close>: one pair per distinct key. The
  store leaves the order of the groups open; the model lists them by last occurrence.\<close>

definition group_by :: "('a \<Rightarrow> 'k) \<Rightarrow> ('a \<Rightarrow> rat) \<Rightarrow> 'a list \<Rightarrow> ('k \<times> rat) list" where
  "group_by key f docs =
     map (\<lambda>k. (k, sum_list (map f (filter (\<lambda>d. key d = k) docs)))) (remdups (map key docs))"

text \<open>\<open>$sort\<close> ascending (\<open>1\<close>) and descending (\<open>-1\<close>) on a key; ties keep their order.\<close>

definition sort_asc :: "('a \<Rightarrow> 'k::linorder) \<Rightarrow> 'a list \<Rightarrow> 'a list" where
  "sort_asc key xs = sort_key key xs"

definition sort_desc :: "('a \<Rightarrow> 'k::linorder) \<Rightarrow> 'a list \<Rightarrow> 'a list" where
  "sort_desc key xs = rev (sort_key key (rev xs))"

text \<open>\<open>cursor.to_list(n)\<close>: at most the first \<open>n\<close> documents.\<close>

definition to_list :: "nat \<Rightarrow> 'a list \<Rightarrow> 'a list" where
  "to_list n xs = take n xs"

text \<open>\<open>result[0]['total'] if result else 0\<close>.\<close>

definition total_or_zero :: "rat list \<Rightarrow> rat" where
  "total_or_zero result = (case result of [] \<Rightarrow> 0 | first # rest \<Rightarrow> first)"

subsection \<open>Budget consumption: \<open>calculate_spent\<close>\<close>

definition calculate_spent ::
  "regex_engine \<Rightarrow> string \<Rightarrow> string \<Rightarrow> string \<Rightarrow> db \<Rightarrow> (error + rat) \<times> db" where
  "calculate_spent eng user_id category month s =
     (case mongo_regex eng (CHR ''^'' # month) of
        None \<Rightarrow> (Inl OperationFailure, s)
      | Some date_matches \<Rightarrow>
          (let result = to_list 1 (group_total tx_amount
                 (filter (\<lambda>t. tx_user_id t = user_id \<and> tx_category t = category \<and>
                               tx_type t = ''expense'' \<and> date_matches (tx_date t))
                    (transactions s)))
           in (Inr (total_or_zero result), s)))"

text \<open>The specification's reading of the same figure: the sum of \<open>amount\<close> over the
  expense transactions of the user in the category whose date starts with the month.\<close>

definition prefix_filter :: "string \<Rightarrow> string \<Rightarrow> string \<Rightarrow> transaction \<Rightarrow> bool" where
  "prefix_filter user_id category month t \<longleftrightarrow>
     tx_user_id t = user_id \<and> tx_type t = ''expense'' \<and> tx_category t = category \<and>
     prefix month (tx_date t)"

definition spent_by_prefix :: "string \<Rightarrow> string \<Rightarrow> string \<Rightarrow> transaction list \<Rightarrow> rat" where
  "spent_by_prefix user_id category month ledger =
     sum_list (map tx_amount (filter (prefix_filter user_id category month) ledger))"

text \<open>A month in which no character is special to the regular-expression engine; every
  month of the form \<open>YYYY-MM\<close> is one.\<close>

definition regex_free :: "string \<Rightarrow> bool" where
  "regex_free month \<longleftrightarrow> list_all (\<lambda>c. c \<notin> set regex_meta) month"

subsection \<open>\<open>create_transaction\<close>\<close>

definition create_transaction ::
  "string \<Rightarrow> string \<Rightarrow> transaction_create \<Rightarrow> string \<Rightarrow> db \<Rightarrow> (error + transaction) \<times> db" where
  "create_transaction transaction_id now data user_id s =
     (let transaction =
            \<lparr>tx_id = transaction_id, tx_user_id = user_id, tx_type = tc_type data,
             tx_amount = tc_amount data, tx_category = tc_category data,
             tx_description = tc_description data, tx_date = tc_date data,
             tx_notes = tc_notes data, tx_created_at = now\<rparr>
      in (Inr transaction, s\<lparr>transactions := transactions s @ [transaction]\<rparr>))"

subsection \<open>Single-document store operations\<close>

text \<open>\<open>find_one\<close> returns the first document that satisfies the filter; \<open>update_one\<close>
  rewrites the first such document and reports \<open>matched_count\<close>; \<open>delete_one\<close> removes
  it and reports \<open>deleted_count\<close>.\<close>

fun find_one :: "('a \<Rightarrow> bool) \<Rightarrow> 'a list \<Rightarrow> 'a option" where
  "find_one p [] = None"
| "find_one p (x # xs) = (if p x then Some x else find_one p xs)"

fun update_one :: "('a \<Rightarrow> bool) \<Rightarrow> ('a \<Rightarrow> 'a) \<Rightarrow> 'a list \<Rightarrow> nat \<times> 'a list" where
  "update_one p f [] = (0, [])"
| "update_one p f (x # xs) =
     (if p x then (1, f x # xs)
      else (case update_one p f xs of (n, ys) \<Rightarrow> (n, x # ys)))"

fun delete_one :: "('a \<Rightarrow> bool) \<Rightarrow> 'a list \<Rightarrow> nat \<times> 'a list" where
  "delete_one p [] = (0, [])"
| "delete_one p (x # xs) =
     (if p x then (1, xs)
      else (case delete_one p xs of (n, ys) \<Rightarrow> (n, x # ys)))"

subsection \<open>\<open>update_transaction\<close>\<close>

text \<open>\<open>{k: v for k, v in data.model_dump().items() if v is not None}\<close>, in the order of
  the model's fields.\<close>

definition transaction_update_data :: "transaction_update \<Rightarrow> (string \<times> val) list" where
  "transaction_update_data data =
     (case tu_type data of None \<Rightarrow> [] | Some v \<Rightarrow> [(''type'', Str v)]) @
     (case tu_amount data of None \<Rightarrow> [] | Some v \<Rightarrow> [(''amount'', Num v)]) @
     (case tu_category data of None \<Rightarrow> [] | Some v \<Rightarrow> [(''category'', Str v)]) @
     (case tu_description data of None \<Rightarrow> [] | Some v \<Rightarrow> [(''description'', Str v)]) @
     (case tu_date data of None \<Rightarrow> [] | Some v \<Rightarrow> [(''date'', Str v)]) @
     (case tu_notes data of None \<Rightarrow> [] | Some v \<Rightarrow> [(''notes'', Str v)])"

fun set_transaction_field :: "string \<times> val \<Rightarrow> transaction \<Rightarrow> transaction" where
  "set_transaction_field (k, Str v) t =
     (if k = ''type'' then t\<lparr>tx_type := v\<rparr>
      else if k = ''category'' then t\<lparr>tx_category := v\<rparr>
      else if k = ''description'' then t\<lparr>tx_description := Some v\<rparr>
      else if k = ''date'' then t\<lparr>tx_date := v\<rparr>
      else if k = ''notes'' then t\<lparr>tx_notes := Some v\<rparr>
      else t)"
| "set_transaction_field (k, Num v) t =
     (if k = ''amount'' then t\<lparr>tx_amount := v\<rparr> else t)"

definition update_transaction ::
  "string \<Rightarrow> transaction_update \<Rightarrow> string \<Rightarrow> db \<Rightarrow> (error + transaction) \<times> db" where
  "update_transaction transaction_id data user_id s =
     (let update_data = transaction_update_data data in
      if update_data = [] then (Inl (HTTPException 400 ''No data to update''), s)
      else
        (case update_one (\<lambda>t. tx_id t = transaction_id \<and> tx_user_id t = user_id)
                (fold set_transaction_field update_data) (transactions s) of
           (matched_count, docs) \<Rightarrow>
             (let s1 = s\<lparr>transactions := docs\<rparr> in
              if matched_count = 0
              then (Inl (HTTPException 404 ''Transaction not found''), s1)
              else (case find_one (\<lambda>t. tx_id t = transaction_id) (transactions s1) of
                      None \<Rightarrow> (Inl TypeError, s1)
                    | Some transaction \<Rightarrow> (Inr transaction, s1)))))"

subsection \<open>Budgets: \<open>create_budget\<close>, \<open>update_budget\<close>, \<open>delete_budget\<close>\<close>

definition create_budget ::
  "string \<Rightarrow> budget_create \<Rightarrow> string \<Rightarrow> db \<Rightarrow> (error + budget_response) \<times> db" where
  "create_budget budget_id data user_id s =
     (case find_one (\<lambda>b. bg_user_id b = user_id \<and> bg_category b = bc_category data \<and>
                          bg_month b = bc_month data) (budgets s) of
        Some existing \<Rightarrow>
          (Inl (HTTPException 400 ''Budget already exists for this category/month''), s)
      | None \<Rightarrow>
          (let budget = \<lparr>bg_id = budget_id, bg_user_id = user_id,
                         bg_category = bc_category data, bg_amount = bc_amount data,
                         bg_month = bc_month data\<rparr>
           in (Inr \<lparr>br_id = bg_id budget, br_user_id = bg_user_id budget,
                    br_category = bg_category budget, br_amount = bg_amount budget,
                    br_month = bg_month budget, br_spent = 0\<rparr>,
               s\<lparr>budgets := budgets s @ [budget]\<rparr>)))"

definition budget_update_data :: "budget_update \<Rightarrow> (string \<times> val) list" where
  "budget_update_data data =
     (case bu_amount data of None \<Rightarrow> [] | Some v \<Rightarrow> [(''amount'', Num v)]) @
     (case bu_month data of None \<Rightarrow> [] | Some v \<Rightarrow> [(''month'', Str v)])"

fun set_budget_field :: "string \<times> val \<Rightarrow> budget \<Rightarrow> budget" where
  "set_budget_field (k, Str v) b = (if k = ''month'' then b\<lparr>bg_month := v\<rparr> else b)"
| "set_budget_field (k, Num v) b = (if k = ''amount'' then b\<lparr>bg_amount := v\<rparr> else b)"

definition update_budget ::
  "regex_engine \<Rightarrow> string \<Rightarrow> budget_update \<Rightarrow> string \<Rightarrow> db \<Rightarrow>
     (error + budget_response) \<times> db" where
  "update_budget eng budget_id data user_id s =
     (let update_data = budget_update_data data in
      if update_data = [] then (Inl (HTTPException 400 ''No data to update''), s)
      else
        (case update_one (\<lambda>b. bg_id b = budget_id \<and> bg_user_id b = user_id)
                (fold set_budget_field update_data) (budgets s) of
           (matched_count, docs) \<Rightarrow>
             (let s1 = s\<lparr>budgets := docs\<rparr> in
              if matched_count = 0 then (Inl (HTTPException 404 ''Budget not found''), s1)
              else (case find_one (\<lambda>b. bg_id b = budget_id) (budgets s1) of
                      None \<Rightarrow> (Inl TypeError, s1)
                    | Some budget \<Rightarrow>
                        (case calculate_spent eng user_id (bg_category budget)
                                (bg_month budget) s1 of
                           (Inl e, s2) \<Rightarrow> (Inl e, s2)
                         | (Inr spent, s2) \<Rightarrow>
                             (Inr \<lparr>br_id = bg_id budget, br_user_id = bg_user_id budget,
                                   br_category = bg_category budget,
                                   br_amount = bg_amount budget,
                                   br_month = bg_month budget, br_spent = spent\<rparr>,
                              s2))))))"

definition delete_budget :: "string \<Rightarrow> string \<Rightarrow> db \<Rightarrow> (error + string) \<times> db" where
  "delete_budget budget_id user_id s =
     (case delete_one (\<lambda>b. bg_id b = budget_id \<and> bg_user_id b = user_id) (budgets s) of
        (deleted_count, docs) \<Rightarrow>
          (let s1 = s\<lparr>budgets := docs\<rparr> in
           if deleted_count = 0 then (Inl (HTTPException 404 ''Budget not found''), s1)
           else (Inr ''Budget deleted'', s1)))"

text \<open>The key that the pre-check of \<open>create_budget\<close> compares, and the invariant it is
  there for: no two stored budgets with the same key.\<close>

definition budget_key :: "budget \<Rightarrow> string \<times> string \<times> string" where
  "budget_key b = (bg_user_id b, bg_category b, bg_month b)"

definition unique_budgets :: "db \<Rightarrow> bool" where
  "unique_budgets s \<longleftrightarrow> distinct (map budget_key (budgets s))"

subsection \<open>The wall clock and optional month parameters\<close>

text \<open>\<open>now_month\<close> is \<open>datetime.now(timezone.utc).strftime('%Y-%m')\<close> and
  \<open>lookback_month\<close> the same format of the time 180 days earlier. A parameter that is
  \<open>None\<close> or the empty string is falsy, and \<open>if not month\<close> replaces it.\<close>

record clock =
  now_month :: string
  lookback_month :: string

definition month_or_default :: "string option \<Rightarrow> string \<Rightarrow> string" where
  "month_or_default param dflt =
     (case param of None \<Rightarrow> dflt | Some m \<Rightarrow> if m = [] then dflt else m)"

subsection \<open>\<open>get_dashboard\<close>\<close>

record dashboard =
  total_income :: rat
  total_expenses :: rat
  balance :: rat
  total_budget :: rat
  remaining_budget :: rat
  budget_used_percent :: rat
  recent_transactions :: "transaction list"
  dashboard_month :: string

definition get_dashboard ::
  "regex_engine \<Rightarrow> clock \<Rightarrow> string option \<Rightarrow> string \<Rightarrow> db \<Rightarrow> (error + dashboard) \<times> db" where
  "get_dashboard eng clk month_param user_id s =
     (let month = month_or_default month_param (now_month clk) in
      case mongo_regex eng (CHR ''^'' # month) of
        None \<Rightarrow> (Inl OperationFailure, s)
      | Some date_matches \<Rightarrow>
          (let income_result = to_list 1 (group_total tx_amount
                 (filter (\<lambda>t. tx_user_id t = user_id \<and> tx_type t = ''income'' \<and>
                               date_matches (tx_date t)) (transactions s)));
               expense_result = to_list 1 (group_total tx_amount
                 (filter (\<lambda>t. tx_user_id t = user_id \<and> tx_type t = ''expense'' \<and>
                               date_matches (tx_date t)) (transactions s)));
               income = total_or_zero income_result;
               expenses = total_or_zero expense_result;
               budget_result = to_list 1 (group_total bg_amount
                 (filter (\<lambda>b. bg_user_id b = user_id \<and> bg_month b = month) (budgets s)));
               budgeted = total_or_zero budget_result;
               recent = to_list 5 (take 5 (sort_desc tx_date
                 (filter (\<lambda>t. tx_user_id t = user_id) (transactions s))))
           in (Inr \<lparr>total_income = income,
                    total_expenses = expenses,
                    balance = income - expenses,
                    total_budget = budgeted,
                    remaining_budget = (if budgeted > 0 then budgeted - expenses else 0),
                    budget_used_percent =
                      (if budgeted > 0 then expenses / budgeted * 100 else 0),
                    recent_transactions = recent,
                    dashboard_month = month\<rparr>, s)))"

subsection \<open>\<open>get_analytics\<close>\<close>

type_synonym pydict = "(string \<times> val) list"

record breakdown_entry =
  be_category :: string
  be_amount :: rat

record analytics =
  category_breakdown :: "breakdown_entry list"
  monthly_trend :: "pydict list"
  an_start_month :: string
  an_end_month :: string

text \<open>The \<open>$match\<close> stages of \<open>category_pipeline\<close> and \<open>monthly_pipeline\<close>.\<close>

definition category_match :: "string \<Rightarrow> string \<Rightarrow> string \<Rightarrow> transaction \<Rightarrow> bool" where
  "category_match user_id start_month end_month t \<longleftrightarrow>
     tx_user_id t = user_id \<and> tx_type t = ''expense'' \<and>
     start_month @ ''-01'' \<le> tx_date t \<and> tx_date t \<le> end_month @ ''-31''"

definition monthly_match :: "string \<Rightarrow> string \<Rightarrow> string \<Rightarrow> transaction \<Rightarrow> bool" where
  "monthly_match user_id start_month end_month t \<longleftrightarrow>
     tx_user_id t = user_id \<and>
     start_month @ ''-01'' \<le> tx_date t \<and> tx_date t \<le> end_month @ ''-31''"

text \<open>The date range of the specification: \<open>start_month + "-01" \<le> date \<le> end_month +
  "-31"\<close> on the raw strings.\<close>

definition in_range :: "string \<Rightarrow> string \<Rightarrow> string \<Rightarrow> bool" where
  "in_range start_month end_month d \<longleftrightarrow>
     start_month @ ''-01'' \<le> d \<and> d \<le> end_month @ ''-31''"

text \<open>\<open>category_data\<close> and \<open>monthly_data\<close>: the two aggregations as the handler reads
  them, \<open>to_list(20)\<close> and \<open>to_list(100)\<close> included. \<open>$substr: ['$date', 0, 7]\<close> is the
  first seven characters of the date.\<close>

definition category_groups ::
  "string \<Rightarrow> string \<Rightarrow> string \<Rightarrow> transaction list \<Rightarrow> (string \<times> rat) list" where
  "category_groups user_id start_month end_month ledger =
     group_by tx_category tx_amount
       (filter (category_match user_id start_month end_month) ledger)"

definition category_data ::
  "string \<Rightarrow> string \<Rightarrow> string \<Rightarrow> transaction list \<Rightarrow> (string \<times> rat) list" where
  "category_data user_id start_month end_month ledger =
     to_list 20 (sort_desc snd (category_groups user_id start_month end_month ledger))"

definition month_type :: "transaction \<Rightarrow> string \<times> string" where
  "month_type t = (take 7 (tx_date t), tx_type t)"

definition monthly_groups ::
  "string \<Rightarrow> string \<Rightarrow> string \<Rightarrow> transaction list \<Rightarrow> ((string \<times> string) \<times> rat) list" where
  "monthly_groups user_id start_month end_month ledger =
     group_by month_type tx_amount
       (filter (monthly_match user_id start_month end_month) ledger)"

definition monthly_data ::
  "string \<Rightarrow> string \<Rightarrow> string \<Rightarrow> transaction list \<Rightarrow> ((string \<times> string) \<times> rat) list" where
  "monthly_data user_id start_month end_month ledger =
     to_list 100
       (sort_asc (\<lambda>g. fst (fst g)) (monthly_groups user_id start_month end_month ledger))"

text \<open>The loop over \<open>monthly_data\<close> that fills \<open>months_dict\<close>. A Python dictionary keeps
  its keys in insertion order; assigning to a key that is present keeps its place.\<close>

definition new_month_record :: "string \<Rightarrow> pydict" where
  "new_month_record m = [(''month'', Str m), (''income'', Num 0), (''expense'', Num 0)]"

fun add_monthly_item ::
  "(string \<times> string) \<times> rat \<Rightarrow> (string \<times> pydict) list \<Rightarrow> (string \<times> pydict) list" where
  "add_monthly_item ((m, ty), tot) months_dict =
     (let months_dict1 =
            (if map_of months_dict m = None
             then AList.update m (new_month_record m) months_dict
             else months_dict)
      in AList.map_entry m (AList.update ty (Num tot)) months_dict1)"

definition months_dict_of :: "((string \<times> string) \<times> rat) list \<Rightarrow> (string \<times> pydict) list" where
  "months_dict_of items = fold add_monthly_item items []"

text \<open>\<open>sorted(months_dict.values(), key=lambda x: x['month'])\<close>: a stable sort on the
  value under \<open>'month'\<close>. Python orders strings among themselves and numbers among
  themselves, and raises \<open>TypeError\<close> when it has to compare one with the other.\<close>

definition month_str :: "pydict \<Rightarrow> string" where
  "month_str d = (case map_of d ''month'' of Some (Str m) \<Rightarrow> m | _ \<Rightarrow> [])"

definition month_num :: "pydict \<Rightarrow> rat" where
  "month_num d = (case map_of d ''month'' of Some (Num x) \<Rightarrow> x | _ \<Rightarrow> 0)"

definition has_str_month :: "pydict \<Rightarrow> bool" where
  "has_str_month d = (case map_of d ''month'' of Some (Str m) \<Rightarrow> True | _ \<Rightarrow> False)"

definition has_num_month :: "pydict \<Rightarrow> bool" where
  "has_num_month d = (case map_of d ''month'' of Some (Num x) \<Rightarrow> True | _ \<Rightarrow> False)"

definition sorted_by_month :: "pydict list \<Rightarrow> error + pydict list" where
  "sorted_by_month ds =
     (if list_ex (\<lambda>d. map_of d ''month'' = None) ds then Inl KeyError
      else if list_all has_str_month ds then Inr (sort_key month_str ds)
      else if list_all has_num_month ds then Inr (sort_key month_num ds)
      else Inl TypeError)"

definition get_analytics ::
  "clock \<Rightarrow> string option \<Rightarrow> string option \<Rightarrow> string \<Rightarrow> db \<Rightarrow> (error + analytics) \<times> db" where
  "get_analytics clk start_month_param end_month_param user_id s =
     (let start_month = month_or_default start_month_param (lookback_month clk);
          end_month = month_or_default end_month_param (now_month clk);
          months_dict =
            months_dict_of (monthly_data user_id start_month end_month (transactions s))
      in case sorted_by_month (map snd months_dict) of
           Inl e \<Rightarrow> (Inl e, s)
         | Inr trend \<Rightarrow>
             (Inr \<lparr>category_breakdown =
                     map (\<lambda>c. \<lparr>be_category = fst c, be_amount = snd c\<rparr>)
                       (category_data user_id start_month end_month (transactions s)),
                   monthly_trend = trend,
                   an_start_month = start_month,
                   an_end_month = end_month\<rparr>, s))"

subsection \<open>Example data\<close>

text \<open>The ledger of the specification's scenario, for a given user.\<close>

definition scenario_ledger :: "string \<Rightarrow> transaction list" where
  "scenario_ledger user_id =
     [\<lparr>tx_id = ''t1'', tx_user_id = user_id, tx_type = ''expense'', tx_amount = 100,
       tx_category = ''Food'', tx_description = None, tx_date = ''2024-03-05'',
       tx_notes = None, tx_created_at = ''2024-03-05T10:00:00''\<rparr>,
      \<lparr>tx_id = ''t2'', tx_user_id = user_id, tx_type = ''expense'', tx_amount = 50,
       tx_category = ''Food'', tx_description = None, tx_date = ''2024-03-20'',
       tx_notes = None, tx_created_at = ''2024-03-20T10:00:00''\<rparr>,
      \<lparr>tx_id = ''t3'', tx_user_id = user_id, tx_type = ''income'', tx_amount = 3000,
       tx_category = ''Salary'', tx_description = None, tx_date = ''2024-03-01'',
       tx_notes = None, tx_created_at = ''2024-03-01T10:00:00''\<rparr>]"

definition scenario_db :: db where
  "scenario_db = \<lparr>transactions = scenario_ledger ''u1'', budgets = []\<rparr>"

definition salary_data :: transaction_create where
  "salary_data =
     \<lparr>tc_type = ''income'', tc_amount = 500, tc_category = ''Food'', tc_description = None,
      tc_date = ''2024-03-15'', tc_notes = None\<rparr>"

text \<open>The store of the scenario with a budget of 200 for \<open>Food\<close> in March 2024, and with
  records of a second user added.\<close>

definition food_budget :: budget where
  "food_budget =
     \<lparr>bg_id = ''b1'', bg_user_id = ''u1'', bg_category = ''Food'', bg_amount = 200,
      bg_month = ''2024-03''\<rparr>"

definition budgeted_db :: db where
  "budgeted_db = \<lparr>transactions = scenario_ledger ''u1'', budgets = [food_budget]\<rparr>"

definition shared_db :: db where
  "shared_db =
     \<lparr>transactions = scenario_ledger ''u2'' @ scenario_ledger ''u1'',
      budgets = [food_budget\<lparr>bg_id := ''b2'', bg_user_id := ''u2'', bg_amount := 999\<rparr>,
                 food_budget]\<rparr>"

text \<open>The clock on 27 and on 28 September 2024: 180 days earlier are 31 March and
  1 April.\<close>

definition clock_sep27 :: clock where
  "clock_sep27 = \<lparr>now_month = ''2024-09'', lookback_month = ''2024-03''\<rparr>"

definition clock_sep28 :: clock where
  "clock_sep28 = \<lparr>now_month = ''2024-09'', lookback_month = ''2024-04''\<rparr>"

text \<open>A store reached by two calls of \<open>create_budget\<close> from the empty store: budgets of
  user \<open>u1\<close> for \<open>Food\<close> in March and in April 2024.\<close>

definition empty_db :: db where
  "empty_db = \<lparr>transactions = [], budgets = []\<rparr>"

definition two_budgets_db :: db where
  "two_budgets_db =
     snd (create_budget ''b2'' \<lparr>bc_category = ''Food'', bc_amount = 200, bc_month = ''2024-04''\<rparr>
            ''u1''
       (snd (create_budget ''b1''
               \<lparr>bc_category = ''Food'', bc_amount = 100, bc_month = ''2024-03''\<rparr> ''u1''
               empty_db)))"

text \<open>A ledger with one rent payment on the first of each month from January 2016 to
  May 2024: 101 months.\<close>

definition monthly_rent :: "string \<Rightarrow> transaction" where
  "monthly_rent d =
     \<lparr>tx_id = ''rent-'' @ d, tx_user_id = ''u1'', tx_type = ''expense'', tx_amount = 800,
      tx_category = ''Rent'', tx_description = None, tx_date = d, tx_notes = None,
      tx_created_at = d\<rparr>"

definition rent_dates :: "string list" where
  "rent_dates =
     [''2016-01-01'', ''2016-02-01'', ''2016-03-01'', ''2016-04-01'', ''2016-05-01'', ''2016-06-01'',
      ''2016-07-01'', ''2016-08-01'', ''2016-09-01'', ''2016-10-01'', ''2016-11-01'', ''2016-12-01'',
      ''2017-01-01'', ''2017-02-01'', ''2017-03-01'', ''2017-04-01'', ''2017-05-01'', ''2017-06-01'',
      ''2017-07-01'', ''2017-08-01'', ''2017-09-01'', ''2017-10-01'', ''2017-11-01'', ''2017-12-01'',
      ''2018-01-01'', ''2018-02-01'', ''2018-03-01'', ''2018-04-01'', ''2018-05-01'', ''2018-06-01'',
      ''2018-07-01'', ''2018-08-01'', ''2018-09-01'', ''2018-10-01'', ''2018-11-01'', ''2018-12-01'',
      ''2019-01-01'', ''2019-02-01'', ''2019-03-01'', ''2019-04-01'', ''2019-05-01'', ''2019-06-01'',
      ''2019-07-01'', ''2019-08-01'', ''2019-09-01'', ''2019-10-01'', ''2019-11-01'', ''2019-12-01'',
      ''2020-01-01'', ''2020-02-01'', ''2020-03-01'', ''2020-04-01'', ''2020-05-01'', ''2020-06-01'',
      ''2020-07-01'', ''2020-08-01'', ''2020-09-01'', ''2020-10-01'', ''2020-11-01'', ''2020-12-01'',
      ''2021-01-01'', ''2021-02-01'', ''2021-03-01'', ''2021-04-01'', ''2021-05-01'', ''2021-06-01'',
      ''2021-07-01'', ''2021-08-01'', ''2021-09-01'', ''2021-10-01'', ''2021-11-01'', ''2021-12-01'',
      ''2022-01-01'', ''2022-02-01'', ''2022-03-01'', ''2022-04-01'', ''2022-05-01'', ''2022-06-01'',
      ''2022-07-01'', ''2022-08-01'', ''2022-09-01'', ''2022-10-01'', ''2022-11-01'', ''2022-12-01'',
      ''2023-01-01'', ''2023-02-01'', ''2023-03-01'', ''2023-04-01'', ''2023-05-01'', ''2023-06-01'',
      ''2023-07-01'', ''2023-08-01'', ''2023-09-01'', ''2023-10-01'', ''2023-11-01'', ''2023-12-01'',
      ''2024-01-01'', ''2024-02-01'', ''2024-03-01'', ''2024-04-01'', ''2024-05-01'']"

definition rent_db :: db where
  "rent_db = \<lparr>transactions = map monthly_rent rent_dates, budgets = []\<rparr>"

text \<open>A store of two users in which user \<open>u1\<close> has spent exactly the 150 budgeted for
  \<open>Food\<close> in March 2024, and has an expense and a budget in April as well.\<close>

definition exhausted_db :: db where
  "exhausted_db =
     \<lparr>transactions = scenario_ledger ''u2'' @ scenario_ledger ''u1'' @
        [\<lparr>tx_id = ''t4'', tx_user_id = ''u1'', tx_type = ''expense'', tx_amount = 70,
          tx_category = ''Food'', tx_description = None, tx_date = ''2024-04-02'',
          tx_notes = None, tx_created_at = ''2024-04-02T10:00:00''\<rparr>],
      budgets = [food_budget\<lparr>bg_id := ''b2'', bg_user_id := ''u2'', bg_amount := 999\<rparr>,
                 food_budget\<lparr>bg_amount := 150\<rparr>,
                 food_budget\<lparr>bg_id := ''b3'', bg_month := ''2024-04''\<rparr>]\<rparr>"

section \<open>Properties\<close>

subsection \<open>The regular expressions of the month filters\<close>

lemma parse_plain_regex_free: "regex_free m \<Longrightarrow> parse_plain m = Some (map Lit m)"
  by (induction m) (auto simp: regex_free_def regex_meta_def)

lemma match_atoms_lit: "match_atoms (map Lit m) d = prefix m d"
  by (induction m arbitrary: d) (case_tac d; auto)+

lemma mongo_regex_plain:
  "regex_free m \<Longrightarrow> mongo_regex eng (CHR ''^'' # m) = Some (prefix m)"
  by (auto simp: mongo_regex_def parse_plain_regex_free match_atoms_lit)

lemma regex_free_2024_03: "regex_free ''2024-03''"
  by (simp add: regex_free_def regex_meta_def)

lemma total_or_zero_group_total:
  "0 < n \<Longrightarrow> total_or_zero (to_list n (group_total f docs)) = sum_list (map f docs)"
  by (cases n) (simp_all add: total_or_zero_def to_list_def group_total_def)

subsection \<open>\<open>calculate_spent\<close>\<close>

lemma calculate_spent_plain:
  "regex_free m \<Longrightarrow>
   calculate_spent eng u c m s = (Inr (spent_by_prefix u c m (transactions s)), s)"
  by (simp add: calculate_spent_def mongo_regex_plain total_or_zero_group_total
      spent_by_prefix_def prefix_filter_def conj_commute conj_left_commute cong: filter_cong)

lemma calculate_spent_ignores_income:
  "tc_type data = ''income'' \<Longrightarrow>
   fst (calculate_spent eng u c m (snd (create_transaction tid now data u' s)))
     = fst (calculate_spent eng u c m s)"
  by (simp add: calculate_spent_def create_transaction_def Let_def split: option.splits)

lemma spent_scenario: "spent_by_prefix u ''Food'' ''2024-03'' (scenario_ledger u) = 150"
  by (simp add: spent_by_prefix_def prefix_filter_def scenario_ledger_def)

text \<open>A month with an opening parenthesis and nothing to close or escape it is not a valid
  pattern: the aggregation fails, whatever the ledger holds.\<close>

lemma calculate_spent_unclosed_group:
  assumes "unclosed_group (CHR ''^'' # month)"
  shows "calculate_spent eng uid cat month s = (Inl OperationFailure, s)"
proof -
  have "parse_plain m = None" if "CHR ''('' \<in> set m" for m
    using that by (induction m) (auto simp: regex_meta_def)
  with assms have "parse_plain month = None"
    by (simp add: unclosed_group_def)
  with assms show ?thesis
    by (simp add: calculate_spent_def mongo_regex_def)
qed

text \<open>
  C1, as the claim states it, fails: the month is spliced into the \<open>$regex\<close> unescaped, so
  for the month \<open>2024.03\<close> the dot matches the hyphen of \<open>2024-03-05\<close> and
  \<open>calculate_spent\<close> returns 150 on the scenario ledger, where no date starts with
  \<open>2024.03\<close> and the sum over the prefix filter is 0.
\<close>

theorem calculate_spent_pattern_month_counterexample:
  "fst (calculate_spent no_engine ''u1'' ''Food'' ''2024.03'' scenario_db) = Inr 150 \<and>
   spent_by_prefix ''u1'' ''Food'' ''2024.03'' (transactions scenario_db) = 0"
  by (simp add: calculate_spent_def mongo_regex_def regex_meta_def total_or_zero_def
      to_list_def group_total_def spent_by_prefix_def prefix_filter_def scenario_ledger_def
      scenario_db_def)

text \<open>
  C1 (amended). For every ledger, user, category and every month that contains no
  character special to the regular-expression engine (every month \<open>YYYY-MM\<close> is one),
  \<open>calculate_spent\<close> returns exactly the sum of \<open>amount\<close> over the transactions of the
  user whose type is \<open>expense\<close>, whose category is the given one and whose date starts
  with the month, and leaves the store as it is. For every month, creating an
  income-type transaction does not change the result. On the scenario ledger the result
  for \<open>Food\<close> and \<open>2024-03\<close> is 150.
\<close>

theorem calculate_spent_sums_matching_expenses:
  "(regex_free month \<longrightarrow>
      calculate_spent eng uid cat month s
        = (Inr (spent_by_prefix uid cat month (transactions s)), s)) \<and>
   (tc_type data = ''income'' \<longrightarrow>
      fst (calculate_spent eng uid cat month (snd (create_transaction tid now data uid2 s)))
        = fst (calculate_spent eng uid cat month s)) \<and>
   fst (calculate_spent eng uid ''Food'' ''2024-03''
          \<lparr>transactions = scenario_ledger uid, budgets = bs\<rparr>) = Inr 150"
  by (simp add: calculate_spent_plain calculate_spent_ignores_income regex_free_2024_03
      spent_scenario)

text \<open>Witness for C1: the scenario ledger, before and after a salary is recorded under
  the category \<open>Food\<close> in the same month.\<close>

theorem calculate_spent_sums_matching_expenses_witness:
  "regex_free ''2024-03'' \<and>
   calculate_spent no_engine ''u1'' ''Food'' ''2024-03'' scenario_db = (Inr 150, scenario_db) \<and>
   tc_type salary_data = ''income'' \<and>
   fst (calculate_spent no_engine ''u1'' ''Food'' ''2024-03''
          (snd (create_transaction ''t4'' ''2024-03-15T09:00:00'' salary_data ''u1'' scenario_db)))
     = Inr 150"
  using calculate_spent_sums_matching_expenses
    [of "''2024-03''" no_engine "''u1''" "''Food''" scenario_db salary_data "''t4''"
        "''2024-03-15T09:00:00''" "''u1''" "[]"]
  by (simp add: regex_free_2024_03 spent_scenario scenario_db_def salary_data_def)




subsection \<open>Updates without data\<close>

text \<open>
  C10. For every stored state, \<open>update_transaction\<close> and \<open>update_budget\<close> called with a
  body in which every optional field is absent fail with \<open>400 No data to update\<close>; the
  check comes before any store operation and the state is returned unchanged.
\<close>

theorem update_without_data_is_rejected:
  "update_transaction tid
     \<lparr>tu_type = None, tu_amount = None, tu_category = None, tu_description = None,
      tu_date = None, tu_notes = None\<rparr> uid s
     = (Inl (HTTPException 400 ''No data to update''), s) \<and>
   update_budget eng bid \<lparr>bu_amount = None, bu_month = None\<rparr> uid s
     = (Inl (HTTPException 400 ''No data to update''), s)"
  by (simp add: update_transaction_def transaction_update_data_def update_budget_def
      budget_update_data_def)

subsection \<open>No visibility across users\<close>

lemma filter_implied_cong:
  assumes "filter U xs = filter U ys" and "\<And>x. P x \<Longrightarrow> U x"
  shows "filter P xs = filter P ys"
proof -
  have *: "filter P zs = filter P (filter U zs)" for zs
    using assms(2) by (induction zs) auto
  have "filter P xs = filter P (filter U xs)" by (rule *)
  also have "\<dots> = filter P (filter U ys)" by (simp only: assms(1))
  also have "\<dots> = filter P ys" by (rule * [symmetric])
  finally show ?thesis .
qed

lemma user_filter_cong:
  assumes "filter (\<lambda>t. tx_user_id t = u) xs = filter (\<lambda>t. tx_user_id t = u) ys"
  shows "filter (\<lambda>t. tx_user_id t = u \<and> Q t) xs = filter (\<lambda>t. tx_user_id t = u \<and> Q t) ys"
  using assms by (rule filter_implied_cong) simp

lemma calculate_spent_user_only:
  assumes "filter (\<lambda>t. tx_user_id t = u) (transactions s1)
             = filter (\<lambda>t. tx_user_id t = u) (transactions s2)"
  shows "fst (calculate_spent eng u cat m s1) = fst (calculate_spent eng u cat m s2)"
  by (simp add: calculate_spent_def user_filter_cong [OF assms] split: option.splits)

lemma budget_user_filter_cong:
  assumes "filter (\<lambda>b. bg_user_id b = u) xs = filter (\<lambda>b. bg_user_id b = u) ys"
  shows "filter (\<lambda>b. bg_user_id b = u \<and> Q b) xs = filter (\<lambda>b. bg_user_id b = u \<and> Q b) ys"
  using assms by (rule filter_implied_cong) simp

lemma get_analytics_user_only:
  assumes "filter (\<lambda>t. tx_user_id t = u) (transactions s1)
             = filter (\<lambda>t. tx_user_id t = u) (transactions s2)"
  shows "fst (get_analytics clk sp ep u s1) = fst (get_analytics clk sp ep u s2)"
proof -
  have c: "category_data u a b (transactions s1) = category_data u a b (transactions s2)" for a b
    unfolding category_data_def category_groups_def category_match_def
    by (simp only: user_filter_cong [OF assms])
  have m: "monthly_data u a b (transactions s1) = monthly_data u a b (transactions s2)" for a b
    unfolding monthly_data_def monthly_groups_def monthly_match_def
    by (simp only: user_filter_cong [OF assms])
  show ?thesis
    by (simp add: get_analytics_def Let_def c m split: sum.splits)
qed

lemma get_dashboard_user_only:
  assumes "filter (\<lambda>t. tx_user_id t = u) (transactions s1)
             = filter (\<lambda>t. tx_user_id t = u) (transactions s2)"
    and "filter (\<lambda>b. bg_user_id b = u) (budgets s1)
             = filter (\<lambda>b. bg_user_id b = u) (budgets s2)"
  shows "fst (get_dashboard eng clk mp u s1) = fst (get_dashboard eng clk mp u s2)"
  unfolding get_dashboard_def Let_def
  by (simp only: user_filter_cong [OF assms(1)]
      budget_user_filter_cong [OF assms(2)] assms(1) split: option.splits) simp

text \<open>
  C8. For every user, the results of \<open>calculate_spent\<close>, \<open>get_analytics\<close> and
  \<open>get_dashboard\<close> for that user are the same on any two stores that hold the same
  transactions and budgets of that user: records of other users can be added, removed or
  changed without effect.
\<close>

theorem results_depend_on_own_records_only:
  assumes "filter (\<lambda>t. tx_user_id t = u) (transactions s1)
             = filter (\<lambda>t. tx_user_id t = u) (transactions s2)"
    and "filter (\<lambda>b. bg_user_id b = u) (budgets s1)
             = filter (\<lambda>b. bg_user_id b = u) (budgets s2)"
  shows "fst (calculate_spent eng u cat m s1) = fst (calculate_spent eng u cat m s2) \<and>
         fst (get_analytics clk sp ep u s1) = fst (get_analytics clk sp ep u s2) \<and>
         fst (get_dashboard eng clk mp u s1) = fst (get_dashboard eng clk mp u s2)"
  using calculate_spent_user_only [OF assms(1)] get_analytics_user_only [OF assms(1)]
    get_dashboard_user_only [OF assms]
  by blast

text \<open>Witness for C8: the store of user \<open>u1\<close> alone, and the same records among
  transactions and a budget of user \<open>u2\<close>.\<close>

lemma shared_db_agrees:
  "filter (\<lambda>t. tx_user_id t = ''u1'') (transactions shared_db)
     = filter (\<lambda>t. tx_user_id t = ''u1'') (transactions budgeted_db) \<and>
   filter (\<lambda>b. bg_user_id b = ''u1'') (budgets shared_db)
     = filter (\<lambda>b. bg_user_id b = ''u1'') (budgets budgeted_db)"
  by (simp add: shared_db_def budgeted_db_def scenario_ledger_def food_budget_def)

theorem results_depend_on_own_records_only_witness:
  "filter (\<lambda>t. tx_user_id t = ''u1'') (transactions shared_db)
     = filter (\<lambda>t. tx_user_id t = ''u1'') (transactions budgeted_db) \<and>
   filter (\<lambda>b. bg_user_id b = ''u1'') (budgets shared_db)
     = filter (\<lambda>b. bg_user_id b = ''u1'') (budgets budgeted_db) \<and>
   fst (calculate_spent no_engine ''u1'' ''Food'' ''2024-03'' shared_db)
     = fst (calculate_spent no_engine ''u1'' ''Food'' ''2024-03'' budgeted_db) \<and>
   fst (get_analytics clock_sep27 None None ''u1'' shared_db)
     = fst (get_analytics clock_sep27 None None ''u1'' budgeted_db) \<and>
   fst (get_dashboard no_engine clock_sep27 (Some ''2024-03'') ''u1'' shared_db)
     = fst (get_dashboard no_engine clock_sep27 (Some ''2024-03'') ''u1'' budgeted_db)"
proof -
  note a = shared_db_agrees
  show ?thesis
    using a results_depend_on_own_records_only [OF a [THEN conjunct1] a [THEN conjunct2]]
    by blast
qed

subsection \<open>The dashboard summary\<close>

lemma get_dashboard_compiled:
  assumes "mongo_regex eng (CHR ''^'' # month_or_default mp (now_month clk)) = Some dm"
  shows "get_dashboard eng clk mp uid s =
    (let month = month_or_default mp (now_month clk);
         income = sum_list (map tx_amount (filter (\<lambda>t. tx_user_id t = uid \<and>
                    tx_type t = ''income'' \<and> dm (tx_date t)) (transactions s)));
         expenses = sum_list (map tx_amount (filter (\<lambda>t. tx_user_id t = uid \<and>
                    tx_type t = ''expense'' \<and> dm (tx_date t)) (transactions s)));
         budgeted = sum_list (map bg_amount (filter (\<lambda>b. bg_user_id b = uid \<and>
                    bg_month b = month) (budgets s)))
     in (Inr \<lparr>total_income = income, total_expenses = expenses,
              balance = income - expenses, total_budget = budgeted,
              remaining_budget = (if budgeted > 0 then budgeted - expenses else 0),
              budget_used_percent = (if budgeted > 0 then expenses / budgeted * 100 else 0),
              recent_transactions = to_list 5 (take 5 (sort_desc tx_date
                 (filter (\<lambda>t. tx_user_id t = uid) (transactions s)))),
              dashboard_month = month\<rparr>, s))"
  using assms
  by (simp add: get_dashboard_def Let_def total_or_zero_group_total)

lemma get_dashboard_rejected:
  assumes "mongo_regex eng (CHR ''^'' # month_or_default mp (now_month clk)) = None"
  shows "get_dashboard eng clk mp uid s = (Inl OperationFailure, s)"
  using assms by (simp add: get_dashboard_def Let_def)

text \<open>
  C6. Let \<open>month\<close> be the month in effect (the one supplied, or the current month for an
  omitted or empty one). If the store accepts \<open>'^' + month\<close> as a pattern,
  \<open>get_dashboard\<close> returns a summary for that month and leaves the store as it is;
  \<open>total_income\<close> and \<open>total_expenses\<close> are the sums of the amounts of the user's
  income-type and expense-type transactions whose date matches the pattern, which for a
  month without special characters are those whose date starts with the month, and
  \<open>recent_transactions\<close> are the user's five latest by date. If the pattern is rejected
  the call fails. In every summary returned, \<open>balance\<close> is \<open>total_income -
  total_expenses\<close>, \<open>total_budget\<close> is the sum of the user's budgets of the month,
  \<open>remaining_budget\<close> is \<open>total_budget - total_expenses\<close> when \<open>total_budget > 0\<close> and 0
  otherwise, and \<open>budget_used_percent\<close> is \<open>total_expenses / total_budget * 100\<close> when
  \<open>total_budget > 0\<close> and 0 otherwise. So a month without budgets and a budget that is
  exactly used up both report \<open>remaining_budget = 0\<close>.
\<close>

theorem dashboard_summary_figures:
  "(\<forall>dm. mongo_regex eng (CHR ''^'' # month_or_default mp (now_month clk)) = Some dm \<longrightarrow>
      (\<exists>r. get_dashboard eng clk mp uid s = (Inr r, s) \<and>
           dashboard_month r = month_or_default mp (now_month clk) \<and>
           total_income r =
             sum_list (map tx_amount (filter (\<lambda>t. tx_user_id t = uid \<and>
               tx_type t = ''income'' \<and> dm (tx_date t)) (transactions s))) \<and>
           total_expenses r =
             sum_list (map tx_amount (filter (\<lambda>t. tx_user_id t = uid \<and>
               tx_type t = ''expense'' \<and> dm (tx_date t)) (transactions s))) \<and>
           recent_transactions r =
             take 5 (sort_desc tx_date (filter (\<lambda>t. tx_user_id t = uid) (transactions s))) \<and>
           (regex_free (month_or_default mp (now_month clk)) \<longrightarrow>
              total_income r =
                sum_list (map tx_amount (filter (\<lambda>t. tx_user_id t = uid \<and>
                  tx_type t = ''income'' \<and>
                  prefix (month_or_default mp (now_month clk)) (tx_date t)) (transactions s))) \<and>
              total_expenses r =
                sum_list (map tx_amount (filter (\<lambda>t. tx_user_id t = uid \<and>
                  tx_type t = ''expense'' \<and>
                  prefix (month_or_default mp (now_month clk)) (tx_date t))
                  (transactions s)))))) \<and>
   (mongo_regex eng (CHR ''^'' # month_or_default mp (now_month clk)) = None \<longrightarrow>
      get_dashboard eng clk mp uid s = (Inl OperationFailure, s)) \<and>
   (\<forall>r. fst (get_dashboard eng clk mp uid s) = Inr r \<longrightarrow>
      balance r = total_income r - total_expenses r \<and>
      total_budget r = sum_list (map bg_amount (filter (\<lambda>b. bg_user_id b = uid \<and>
                         bg_month b = dashboard_month r) (budgets s))) \<and>
      remaining_budget r =
        (if total_budget r > 0 then total_budget r - total_expenses r else 0) \<and>
      budget_used_percent r =
        (if total_budget r > 0 then total_expenses r / total_budget r * 100 else 0) \<and>
      (filter (\<lambda>b. bg_user_id b = uid \<and> bg_month b = dashboard_month r) (budgets s) = []
         \<longrightarrow> remaining_budget r = 0 \<and> budget_used_percent r = 0) \<and>
      (total_budget r = total_expenses r \<longrightarrow> remaining_budget r = 0))"
proof (cases "mongo_regex eng (CHR ''^'' # month_or_default mp (now_month clk))")
  case None
  then show ?thesis
    by (simp add: get_dashboard_rejected)
next
  case (Some dm)
  have p: "dm = prefix (month_or_default mp (now_month clk))"
    if "regex_free (month_or_default mp (now_month clk))"
    using Some mongo_regex_plain [OF that, of eng] by simp
  show ?thesis
    unfolding get_dashboard_compiled [OF Some] Let_def
    using p by (auto simp: Some to_list_def)
qed

text \<open>Witness for C6: March 2024 of user \<open>u1\<close> on the store of two users, where the
  budget of 150 is exactly used up, and on the scenario with a budget of 200.\<close>

theorem dashboard_summary_figures_witness:
  "mongo_regex no_engine (CHR ''^'' # month_or_default (Some ''2024-03'') (now_month clock_sep27))
     = Some (prefix ''2024-03'') \<and>
   regex_free (month_or_default (Some ''2024-03'') (now_month clock_sep27)) \<and>
   (case fst (get_dashboard no_engine clock_sep27 (Some ''2024-03'') ''u1'' exhausted_db) of
      Inl e \<Rightarrow> False
    | Inr r \<Rightarrow> total_income r = 3000 \<and> total_expenses r = 150 \<and> balance r = 2850 \<and>
        total_budget r = 150 \<and> remaining_budget r = 0 \<and> budget_used_percent r = 100 \<and>
        dashboard_month r = ''2024-03'') \<and>
   (case fst (get_dashboard no_engine clock_sep27 (Some ''2024-03'') ''u1'' budgeted_db) of
      Inl e \<Rightarrow> False
    | Inr r \<Rightarrow> total_income r = 3000 \<and> total_expenses r = 150 \<and> balance r = 2850 \<and>
        total_budget r = 200 \<and> remaining_budget r = 50 \<and> budget_used_percent r = 75)"
proof -
  have m: "month_or_default (Some ''2024-03'') (now_month clock_sep27) = ''2024-03''"
    by (simp add: month_or_default_def)
  have c: "mongo_regex no_engine (CHR ''^'' # ''2024-03'') = Some (prefix ''2024-03'')"
    by (rule mongo_regex_plain [OF regex_free_2024_03])
  have e1: "(case fst (get_dashboard no_engine clock_sep27 (Some ''2024-03'') ''u1''
                 exhausted_db) of
      Inl e \<Rightarrow> False
    | Inr r \<Rightarrow> total_income r = 3000 \<and> total_expenses r = 150 \<and> balance r = 2850 \<and>
        total_budget r = 150 \<and> remaining_budget r = 0 \<and> budget_used_percent r = 100 \<and>
        dashboard_month r = ''2024-03'')"
    by (simp add: get_dashboard_compiled [of no_engine "Some ''2024-03''" clock_sep27,
          unfolded m, OF c] Let_def exhausted_db_def scenario_ledger_def food_budget_def)
  have e2: "(case fst (get_dashboard no_engine clock_sep27 (Some ''2024-03'') ''u1''
                 budgeted_db) of
      Inl e \<Rightarrow> False
    | Inr r \<Rightarrow> total_income r = 3000 \<and> total_expenses r = 150 \<and> balance r = 2850 \<and>
        total_budget r = 200 \<and> remaining_budget r = 50 \<and> budget_used_percent r = 75)"
    by (simp add: get_dashboard_compiled [of no_engine "Some ''2024-03''" clock_sep27,
          unfolded m, OF c] Let_def budgeted_db_def scenario_ledger_def food_budget_def)
  note t = dashboard_summary_figures
    [of no_engine "Some ''2024-03''" clock_sep27 "''u1''" exhausted_db]
  show ?thesis
    using t c e1 e2 regex_free_2024_03 by (simp add: m)
qed

subsection \<open>Read-only aggregators\<close>

lemma calculate_spent_state: "snd (calculate_spent eng u c m s) = s"
  by (simp add: calculate_spent_def Let_def split: option.splits)

lemma get_analytics_state: "snd (get_analytics clk sp ep u s) = s"
  by (simp add: get_analytics_def Let_def split: sum.splits)

lemma get_analytics_clock:
  assumes "month_or_default sp (lookback_month clk2) = month_or_default sp (lookback_month clk)"
    and "month_or_default ep (now_month clk2) = month_or_default ep (now_month clk)"
  shows "get_analytics clk2 sp ep u s = get_analytics clk sp ep u s"
  using assms by (simp add: get_analytics_def)

text \<open>
  C7 (amended). \<open>calculate_spent\<close> and \<open>get_analytics\<close> return the store as they found
  it. A second call of \<open>calculate_spent\<close> with the same arguments returns the same
  result. A second call of \<open>get_analytics\<close> with the same arguments returns the same
  result when the clock gives it the same default months, and in particular whenever both
  \<open>start_month\<close> and \<open>end_month\<close> are supplied and non-empty.
\<close>

theorem aggregators_are_read_only:
  "snd (calculate_spent eng u c m s) = s \<and>
   snd (get_analytics clk sp ep u s) = s \<and>
   calculate_spent eng u c m (snd (calculate_spent eng u c m s)) = calculate_spent eng u c m s \<and>
   (month_or_default sp (lookback_month clk2) = month_or_default sp (lookback_month clk) \<and>
    month_or_default ep (now_month clk2) = month_or_default ep (now_month clk) \<longrightarrow>
      get_analytics clk2 sp ep u (snd (get_analytics clk sp ep u s))
        = get_analytics clk sp ep u s) \<and>
   (a \<noteq> [] \<and> b \<noteq> [] \<longrightarrow>
      get_analytics clk2 (Some a) (Some b) u (snd (get_analytics clk (Some a) (Some b) u s))
        = get_analytics clk (Some a) (Some b) u s)"
proof -
  have same: "get_analytics clk2 (Some a) (Some b) u s = get_analytics clk (Some a) (Some b) u s"
    if "a \<noteq> []" and "b \<noteq> []"
    using that by (intro get_analytics_clock) (simp_all add: month_or_default_def)
  show ?thesis
    using get_analytics_clock [of sp clk2 clk ep u s] same
    by (simp add: calculate_spent_state get_analytics_state)
qed

text \<open>
  C7, as the claim states it, fails: with \<open>start_month\<close> and \<open>end_month\<close> omitted the
  range comes from the wall clock. On 27 September 2024 the 180-day window starts in March
  and the scenario's transactions are reported; the same call one day later, on the
  unchanged store, starts in April and reports nothing.
\<close>

theorem analytics_clock_counterexample:
  "fst (get_analytics clock_sep27 None None ''u1'' scenario_db) =
     Inr \<lparr>category_breakdown = [\<lparr>be_category = ''Food'', be_amount = 150\<rparr>],
          monthly_trend = [[(''month'', Str ''2024-03''), (''income'', Num 3000),
                            (''expense'', Num 150)]],
          an_start_month = ''2024-03'', an_end_month = ''2024-09''\<rparr> \<and>
   fst (get_analytics clock_sep28 None None ''u1''
          (snd (get_analytics clock_sep27 None None ''u1'' scenario_db))) =
     Inr \<lparr>category_breakdown = [], monthly_trend = [],
          an_start_month = ''2024-04'', an_end_month = ''2024-09''\<rparr>"
  by code_simp

text \<open>Witness for C7: the analytics of March 2024, asked for on two different days.\<close>

theorem aggregators_are_read_only_witness:
  "month_or_default (Some ''2024-03'') (lookback_month clock_sep28)
     = month_or_default (Some ''2024-03'') (lookback_month clock_sep27) \<and>
   month_or_default (Some ''2024-03'') (now_month clock_sep28)
     = month_or_default (Some ''2024-03'') (now_month clock_sep27) \<and>
   snd (calculate_spent no_engine ''u1'' ''Food'' ''2024-03'' scenario_db) = scenario_db \<and>
   get_analytics clock_sep28 (Some ''2024-03'') (Some ''2024-03'') ''u1''
     (snd (get_analytics clock_sep27 (Some ''2024-03'') (Some ''2024-03'') ''u1'' scenario_db))
     = get_analytics clock_sep27 (Some ''2024-03'') (Some ''2024-03'') ''u1'' scenario_db"
  using aggregators_are_read_only
    [of no_engine "''u1''" "''Food''" "''2024-03''" scenario_db clock_sep27
        "Some ''2024-03''" "Some ''2024-03''" clock_sep28 "''2024-03''" "''2024-03''"]
  by (simp add: month_or_default_def get_analytics_state calculate_spent_state)

subsection \<open>The date range of the analytics\<close>

lemma get_analytics_effective:
  "get_analytics clk sp ep u s =
    (case sorted_by_month (map snd (months_dict_of
            (monthly_data u (month_or_default sp (lookback_month clk))
               (month_or_default ep (now_month clk)) (transactions s)))) of
       Inl e \<Rightarrow> (Inl e, s)
     | Inr trend \<Rightarrow>
         (Inr \<lparr>category_breakdown =
                 map (\<lambda>c. \<lparr>be_category = fst c, be_amount = snd c\<rparr>)
                   (category_data u (month_or_default sp (lookback_month clk))
                      (month_or_default ep (now_month clk)) (transactions s)),
               monthly_trend = trend,
               an_start_month = month_or_default sp (lookback_month clk),
               an_end_month = month_or_default ep (now_month clk)\<rparr>, s))"
  by (simp add: get_analytics_def Let_def)

lemma category_data_in_range:
  "category_data u a b (filter (\<lambda>t. in_range a b (tx_date t)) ledger)
     = category_data u a b ledger"
proof -
  have "filter (category_match u a b) (filter (\<lambda>t. in_range a b (tx_date t)) ledger)
          = filter (category_match u a b) ledger"
    by (induction ledger) (auto simp: category_match_def in_range_def)
  then show ?thesis
    by (simp only: category_data_def category_groups_def)
qed

lemma monthly_data_in_range:
  "monthly_data u a b (filter (\<lambda>t. in_range a b (tx_date t)) ledger)
     = monthly_data u a b ledger"
proof -
  have "filter (monthly_match u a b) (filter (\<lambda>t. in_range a b (tx_date t)) ledger)
          = filter (monthly_match u a b) ledger"
    by (induction ledger) (auto simp: monthly_match_def in_range_def)
  then show ?thesis
    by (simp only: monthly_data_def monthly_groups_def)
qed

lemma get_analytics_in_range:
  "fst (get_analytics clk sp ep u
          (s\<lparr>transactions := filter (\<lambda>t. in_range (month_or_default sp (lookback_month clk))
                 (month_or_default ep (now_month clk)) (tx_date t)) (transactions s)\<rparr>))
     = fst (get_analytics clk sp ep u s)"
  by (simp add: get_analytics_def Let_def category_data_in_range monthly_data_in_range
      split: sum.splits)

lemma short_month_in_range: "in_range ''2024-02'' ''2024-02'' ''2024-02-30''"
  by (simp add: in_range_def)

text \<open>
  C4. For every request, let \<open>start_month\<close> and \<open>end_month\<close> be the months in effect
  when the filters are built: the month supplied, or, for an omitted or empty one, the
  month 180 days before now and the current month. A transaction passes the \<open>$match\<close>
  stage of the category aggregation exactly when it belongs to the user, has type
  \<open>expense\<close> and its date string satisfies \<open>start_month + "-01" \<le> date \<le> end_month +
  "-31"\<close> in the lexicographic order, bounds included; it passes the one of the monthly
  aggregation exactly when it belongs to the user and its date satisfies the same
  condition. \<open>get_analytics\<close> computes both sequences from the transactions that pass, so
  dropping every transaction outside the range changes nothing. The comparison is on the
  raw strings: \<open>2024-02-30\<close> is inside the range of February 2024.
\<close>

theorem analytics_date_range:
  assumes "start_month = month_or_default sp (lookback_month clk)"
    and "end_month = month_or_default ep (now_month clk)"
  shows "(category_match u start_month end_month t \<longleftrightarrow>
            tx_user_id t = u \<and> tx_type t = ''expense'' \<and>
            in_range start_month end_month (tx_date t)) \<and>
         (monthly_match u start_month end_month t \<longleftrightarrow>
            tx_user_id t = u \<and> in_range start_month end_month (tx_date t)) \<and>
         get_analytics clk sp ep u s =
           (case sorted_by_month (map snd (months_dict_of
                   (to_list 100 (sort_asc (\<lambda>g. fst (fst g))
                      (group_by month_type tx_amount
                         (filter (monthly_match u start_month end_month) (transactions s))))))) of
              Inl e \<Rightarrow> (Inl e, s)
            | Inr trend \<Rightarrow>
                (Inr \<lparr>category_breakdown =
                        map (\<lambda>c. \<lparr>be_category = fst c, be_amount = snd c\<rparr>)
                          (to_list 20 (sort_desc snd
                             (group_by tx_category tx_amount
                                (filter (category_match u start_month end_month)
                                   (transactions s))))),
                      monthly_trend = trend, an_start_month = start_month,
                      an_end_month = end_month\<rparr>, s)) \<and>
         fst (get_analytics clk sp ep u
                (s\<lparr>transactions := filter (\<lambda>t. in_range start_month end_month (tx_date t))
                                       (transactions s)\<rparr>))
           = fst (get_analytics clk sp ep u s) \<and>
         (\<forall>m. sp = Some m \<and> m \<noteq> [] \<longrightarrow> start_month = m) \<and>
         (sp = None \<or> sp = Some [] \<longrightarrow> start_month = lookback_month clk) \<and>
         (\<forall>m. ep = Some m \<and> m \<noteq> [] \<longrightarrow> end_month = m) \<and>
         (ep = None \<or> ep = Some [] \<longrightarrow> end_month = now_month clk) \<and>
         in_range ''2024-02'' ''2024-02'' ''2024-02-30''"
proof -
  have c1: "category_match u start_month end_month t \<longleftrightarrow>
      tx_user_id t = u \<and> tx_type t = ''expense'' \<and> in_range start_month end_month (tx_date t)"
    by (simp add: category_match_def in_range_def)
  have c2: "monthly_match u start_month end_month t \<longleftrightarrow>
      tx_user_id t = u \<and> in_range start_month end_month (tx_date t)"
    by (simp add: monthly_match_def in_range_def)
  note c3 = get_analytics_effective [of clk sp ep u s, folded assms,
      unfolded monthly_data_def monthly_groups_def category_data_def category_groups_def]
  note c4 = get_analytics_in_range [of clk sp ep u s, folded assms]
  have c5: "\<forall>m. sp = Some m \<and> m \<noteq> [] \<longrightarrow> start_month = m"
    and c6: "sp = None \<or> sp = Some [] \<longrightarrow> start_month = lookback_month clk"
    and c7: "\<forall>m. ep = Some m \<and> m \<noteq> [] \<longrightarrow> end_month = m"
    and c8: "ep = None \<or> ep = Some [] \<longrightarrow> end_month = now_month clk"
    by (auto simp: assms month_or_default_def)
  show ?thesis
    by (intro conjI) (fact c1 c2 c3 c4 c5 c6 c7 c8 short_month_in_range)+
qed

text \<open>Witness for C4: the scenario ledger on 28 September 2024, asked for March 2024, and
  asked with an empty \<open>start_month\<close>, for which the range starts in April.\<close>

theorem analytics_date_range_witness:
  "''2024-03'' = month_or_default (Some ''2024-03'') (lookback_month clock_sep28) \<and>
   ''2024-03'' = month_or_default (Some ''2024-03'') (now_month clock_sep28) \<and>
   category_match ''u1'' ''2024-03'' ''2024-03'' (hd (transactions scenario_db)) \<and>
   in_range ''2024-03'' ''2024-03'' (tx_date (hd (transactions scenario_db))) \<and>
   fst (get_analytics clock_sep28 (Some ''2024-03'') (Some ''2024-03'') ''u1'' scenario_db) =
     Inr \<lparr>category_breakdown = [\<lparr>be_category = ''Food'', be_amount = 150\<rparr>],
          monthly_trend = [[(''month'', Str ''2024-03''), (''income'', Num 3000),
                            (''expense'', Num 150)]],
          an_start_month = ''2024-03'', an_end_month = ''2024-03''\<rparr> \<and>
   ''2024-04'' = month_or_default (Some []) (lookback_month clock_sep28) \<and>
   \<not> category_match ''u1'' ''2024-04'' ''2024-03'' (hd (transactions scenario_db)) \<and>
   fst (get_analytics clock_sep28 (Some []) (Some ''2024-03'') ''u1'' scenario_db) =
     Inr \<lparr>category_breakdown = [], monthly_trend = [],
          an_start_month = ''2024-04'', an_end_month = ''2024-03''\<rparr>"
proof -
  have h: "''2024-03'' = month_or_default (Some ''2024-03'') (lookback_month clock_sep28)"
    "''2024-03'' = month_or_default (Some ''2024-03'') (now_month clock_sep28)"
    "''2024-04'' = month_or_default (Some []) (lookback_month clock_sep28)"
    by (simp_all add: month_or_default_def clock_sep28_def)
  have e: "fst (get_analytics clock_sep28 (Some ''2024-03'') (Some ''2024-03'') ''u1'' scenario_db) =
     Inr \<lparr>category_breakdown = [\<lparr>be_category = ''Food'', be_amount = 150\<rparr>],
          monthly_trend = [[(''month'', Str ''2024-03''), (''income'', Num 3000),
                            (''expense'', Num 150)]],
          an_start_month = ''2024-03'', an_end_month = ''2024-03''\<rparr>"
    "fst (get_analytics clock_sep28 (Some []) (Some ''2024-03'') ''u1'' scenario_db) =
     Inr \<lparr>category_breakdown = [], monthly_trend = [],
          an_start_month = ''2024-04'', an_end_month = ''2024-03''\<rparr>"
    by code_simp+
  have d: "category_match ''u1'' ''2024-03'' ''2024-03'' (hd (transactions scenario_db))"
    "in_range ''2024-03'' ''2024-03'' (tx_date (hd (transactions scenario_db)))"
    "\<not> category_match ''u1'' ''2024-04'' ''2024-03'' (hd (transactions scenario_db))"
    by code_simp+
  note t1 = analytics_date_range [OF h(1) h(2), of "''u1''" "hd (transactions scenario_db)"
      scenario_db]
  note t2 = analytics_date_range [OF h(3) h(2), of "''u1''" "hd (transactions scenario_db)"
      scenario_db]
  show ?thesis
    using t1 t2 h e d by blast
qed

subsection \<open>One budget per user, category and month\<close>

lemma find_one_None: "find_one p xs = None \<longleftrightarrow> (\<forall>x \<in> set xs. \<not> p x)"
  by (induction xs) auto

lemma find_one_Some: "find_one p xs = Some x \<Longrightarrow> x \<in> set xs \<and> p x"
  by (induction xs) (auto split: if_splits)

lemma create_budget_existing:
  assumes "b \<in> set (budgets s)" and "bg_user_id b = uid" and "bg_category b = bc_category data"
    and "bg_month b = bc_month data"
  shows "create_budget bid data uid s
           = (Inl (HTTPException 400 ''Budget already exists for this category/month''), s)"
proof -
  have "find_one (\<lambda>b. bg_user_id b = uid \<and> bg_category b = bc_category data \<and>
                       bg_month b = bc_month data) (budgets s) \<noteq> None"
    using assms by (auto simp: find_one_None)
  then show ?thesis
    by (auto simp: create_budget_def)
qed

lemma create_budget_fresh:
  assumes "(uid, bc_category data, bc_month data) \<notin> budget_key ` set (budgets s)"
  shows "create_budget bid data uid s
           = (Inr \<lparr>br_id = bid, br_user_id = uid, br_category = bc_category data,
                   br_amount = bc_amount data, br_month = bc_month data, br_spent = 0\<rparr>,
              s\<lparr>budgets := budgets s @
                   [\<lparr>bg_id = bid, bg_user_id = uid, bg_category = bc_category data,
                     bg_amount = bc_amount data, bg_month = bc_month data\<rparr>]\<rparr>)"
proof -
  have "find_one (\<lambda>b. bg_user_id b = uid \<and> bg_category b = bc_category data \<and>
                       bg_month b = bc_month data) (budgets s) = None"
    using assms by (force simp: find_one_None budget_key_def)
  then show ?thesis
    by (simp add: create_budget_def)
qed

lemma create_budget_keeps_unique:
  assumes "unique_budgets s"
  shows "unique_budgets (snd (create_budget bid data uid s))"
proof (cases "(uid, bc_category data, bc_month data) \<in> budget_key ` set (budgets s)")
  case True
  then obtain b where "b \<in> set (budgets s)" "bg_user_id b = uid"
    "bg_category b = bc_category data" "bg_month b = bc_month data"
    by (auto simp: budget_key_def)
  then show ?thesis
    using assms by (simp add: create_budget_existing)
next
  case False
  then show ?thesis
    using assms by (simp add: create_budget_fresh unique_budgets_def budget_key_def)
qed

lemma delete_one_sublist: "set (snd (delete_one p xs)) \<subseteq> set xs \<and>
   (distinct (map f xs) \<longrightarrow> distinct (map f (snd (delete_one p xs))))"
  by (induction xs) (auto split: prod.splits)

lemma delete_budget_keeps_unique:
  assumes "unique_budgets s"
  shows "unique_budgets (snd (delete_budget bid uid s))"
  using assms delete_one_sublist [of "\<lambda>b. bg_id b = bid \<and> bg_user_id b = uid" "budgets s" budget_key]
  by (auto simp: delete_budget_def unique_budgets_def Let_def split: prod.splits)

text \<open>
  C9. \<open>create_budget\<close> refuses a second budget for the same user, category and month,
  and inserts exactly one record with \<open>spent = 0\<close> otherwise (the three lemmas above; it
  and \<open>delete_budget\<close> keep the keys of the stored budgets distinct). The consequence the
  claim draws fails on the code: \<open>update_budget\<close> writes a new \<open>month\<close> without the
  pre-check. From the store reached by creating budgets for \<open>Food\<close> in March and in April
  2024, moving the April budget to March succeeds and leaves two budgets with the key
  \<open>(u1, Food, 2024-03)\<close>.
\<close>

theorem update_budget_duplicates_key:
  "unique_budgets two_budgets_db \<and>
   fst (update_budget no_engine ''b2'' \<lparr>bu_amount = None, bu_month = Some ''2024-03''\<rparr> ''u1''
          two_budgets_db)
     = Inr \<lparr>br_id = ''b2'', br_user_id = ''u1'', br_category = ''Food'', br_amount = 200,
            br_month = ''2024-03'', br_spent = 0\<rparr> \<and>
   map budget_key (budgets (snd (update_budget no_engine ''b2''
          \<lparr>bu_amount = None, bu_month = Some ''2024-03''\<rparr> ''u1'' two_budgets_db)))
     = [(''u1'', ''Food'', ''2024-03''), (''u1'', ''Food'', ''2024-03'')] \<and>
   \<not> unique_budgets (snd (update_budget no_engine ''b2''
          \<lparr>bu_amount = None, bu_month = Some ''2024-03''\<rparr> ''u1'' two_budgets_db))"
  by code_simp

subsection \<open>Grouping and sorting\<close>

lemma group_by_keys: "map fst (group_by key f docs) = remdups (map key docs)"
  by (simp add: group_by_def comp_def)


lemma group_by_member:
  "(k, v) \<in> set (group_by key f docs) \<longleftrightarrow>
     k \<in> key ` set docs \<and> v = sum_list (map f (filter (\<lambda>d. key d = k) docs))"
  by (auto simp: group_by_def)






subsection \<open>The loop that fills \<open>months_dict\<close>\<close>

lemma map_fst_map_entry: "map fst (AList.map_entry k f xs) = map fst xs"
  by (induct xs) auto

lemma add_monthly_item_keys:
  "map fst (add_monthly_item ((m, ty), v) md) =
     (if m \<in> set (map fst md) then map fst md else map fst md @ [m])"
  by (simp add: map_fst_map_entry AList.update_keys map_of_eq_None_iff Let_def)

lemma add_monthly_item_lookup:
  "map_of (add_monthly_item ((m, ty), v) md) k =
     (if k = m
      then Some (AList.update ty (Num v)
                  (case map_of md m of None \<Rightarrow> new_month_record m | Some d \<Rightarrow> d))
      else map_of md k)"
  by (simp add: AList.map_of_map_entry AList.update_conv' Let_def split: option.splits)

lemma months_dict_of_snoc:
  "months_dict_of (items @ [x]) = add_monthly_item x (months_dict_of items)"
  by (simp add: months_dict_of_def)

lemma new_month_record_month: "map_of (new_month_record m) ''month'' = Some (Str m)"
  by (simp add: new_month_record_def)

lemma months_dict_of_keys:
  assumes "sorted (map (\<lambda>g. fst (fst g)) items)"
  shows "sorted (map fst (months_dict_of items)) \<and>
         distinct (map fst (months_dict_of items)) \<and>
         set (map fst (months_dict_of items)) = (\<lambda>g. fst (fst g)) ` set items"
  using assms
proof (induction items rule: rev_induct)
  case Nil
  then show ?case by (simp add: months_dict_of_def)
next
  case (snoc x items)
  obtain m ty v where x: "x = ((m, ty), v)"
    by (metis prod.collapse)
  let ?md = "months_dict_of items"
  from snoc.prems have s: "sorted (map (\<lambda>g. fst (fst g)) items)"
    and le: "\<forall>y \<in> set items. fst (fst y) \<le> m"
    by (auto simp: sorted_append x)
  note ih = snoc.IH [OF s]
  show ?case
  proof (cases "m \<in> set (map fst ?md)")
    case True
    with ih show ?thesis
      by (auto simp: months_dict_of_snoc x add_monthly_item_keys
          simp del: add_monthly_item.simps)
  next
    case False
    have "\<forall>k \<in> set (map fst ?md). k \<le> m"
      using ih le by auto
    with False ih show ?thesis
      by (auto simp: months_dict_of_snoc x add_monthly_item_keys sorted_append
          simp del: add_monthly_item.simps)
  qed
qed

lemma months_dict_of_records:
  assumes "sorted (map (\<lambda>g. fst (fst g)) items)"
    and "distinct (map fst items)"
    and "\<forall>g \<in> set items. snd (fst g) \<noteq> ''month''"
    and "map_of (months_dict_of items) k = Some d"
  shows "map_of d ''month'' = Some (Str k) \<and>
         (\<forall>ty. ty \<noteq> ''month'' \<longrightarrow>
            map_of d ty = (case map_of items (k, ty) of
                             Some v \<Rightarrow> Some (Num v)
                           | None \<Rightarrow> map_of (new_month_record k) ty))"
  using assms
proof (induction items arbitrary: k d rule: rev_induct)
  case Nil
  then show ?case by (simp add: months_dict_of_def)
next
  case (snoc x items)
  obtain m ty v where x: "x = ((m, ty), v)"
    by (metis prod.collapse)
  let ?md = "months_dict_of items"
  from snoc.prems(1) have s: "sorted (map (\<lambda>g. fst (fst g)) items)"
    by (auto simp: sorted_append)
  from snoc.prems(2) have dk: "distinct (map fst items)" and fresh: "(m, ty) \<notin> fst ` set items"
    by (auto simp: x)
  from snoc.prems(3) have nm: "\<forall>g \<in> set items. snd (fst g) \<noteq> ''month''" and ty: "ty \<noteq> ''month''"
    by (auto simp: x)
  note ih = snoc.IH [OF s dk nm]
  note keys = months_dict_of_keys [OF s]
  have none: "map_of items (m, ty) = None"
    using fresh by (simp add: map_of_eq_None_iff)
  have look: "map_of (add_monthly_item x ?md) k = Some d"
    using snoc.prems(4) by (simp add: months_dict_of_snoc)
  show ?case
  proof (cases "k = m")
    case False
    with look have "map_of ?md k = Some d"
      by (simp add: x add_monthly_item_lookup del: add_monthly_item.simps)
    from ih [OF this] False show ?thesis
      by (auto simp: x map_add_def split: option.splits)
  next
    case True
    let ?d0 = "case map_of ?md m of None \<Rightarrow> new_month_record m | Some d \<Rightarrow> d"
    from look True have d: "d = AList.update ty (Num v) ?d0"
      by (simp add: x add_monthly_item_lookup del: add_monthly_item.simps)
    have d0: "map_of ?d0 ''month'' = Some (Str m) \<and>
         (\<forall>ty'. ty' \<noteq> ''month'' \<longrightarrow>
            map_of ?d0 ty' = (case map_of items (m, ty') of
                             Some v \<Rightarrow> Some (Num v)
                           | None \<Rightarrow> map_of (new_month_record m) ty'))"
    proof (cases "map_of ?md m")
      case None
      then have "m \<notin> (\<lambda>g. fst (fst g)) ` set items"
        using keys by (simp add: map_of_eq_None_iff)
      then have "map_of items (m, ty') = None" for ty'
        by (force simp: map_of_eq_None_iff)
      with None show ?thesis
        by (simp add: new_month_record_month)
    next
      case (Some d')
      from ih [OF this] Some show ?thesis
        by simp
    qed
    show ?thesis
      unfolding True d using d0 ty none
      by (auto simp: x AList.update_conv' map_add_def split: option.splits)
  qed
qed

subsection \<open>The monthly trend\<close>

lemma distinct_map_same_set:
  assumes "set xs = set ys" and "length xs = length ys"
  shows "distinct (map g xs) \<longleftrightarrow> distinct (map g ys)"
proof -
  have "distinct (map g xs) \<longleftrightarrow> card (set (map g xs)) = length (map g xs)"
    by (metis card_distinct distinct_card)
  also have "\<dots> \<longleftrightarrow> card (set (map g ys)) = length (map g ys)"
    using assms by simp
  also have "\<dots> \<longleftrightarrow> distinct (map g ys)"
    by (metis card_distinct distinct_card)
  finally show ?thesis .
qed

lemma group_by_lookup:
  "map_of (group_by key f docs) k =
     (if k \<in> key ` set docs then Some (sum_list (map f (filter (\<lambda>d. key d = k) docs)))
      else None)"
proof (cases "k \<in> key ` set docs")
  case True
  have "distinct (map fst (group_by key f docs))"
    by (simp add: group_by_keys)
  then show ?thesis
    using True by (simp add: group_by_member)
next
  case False
  then have "k \<notin> fst ` set (group_by key f docs)"
    by (force simp: group_by_member)
  with False show ?thesis
    by (simp add: map_of_eq_None_iff)
qed

lemma monthly_data_untruncated:
  assumes "card (month_type ` set (filter (monthly_match u a b) ledger)) \<le> 100"
  shows "monthly_data u a b ledger
           = sort_key (\<lambda>g. fst (fst g)) (monthly_groups u a b ledger)"
proof -
  have "length (monthly_groups u a b ledger)
          = card (month_type ` set (filter (monthly_match u a b) ledger))"
    unfolding monthly_groups_def
    by (metis group_by_keys length_map length_remdups_card_conv set_map)
  with assms show ?thesis
    by (simp add: monthly_data_def to_list_def sort_asc_def)
qed

lemma monthly_data_lookup:
  assumes "card (month_type ` set (filter (monthly_match u a b) ledger)) \<le> 100"
  shows "map_of (monthly_data u a b ledger) k
           = map_of (monthly_groups u a b ledger) k"
proof -
  let ?G = "monthly_groups u a b ledger"
  let ?M = "sort_key (\<lambda>g. fst (fst g)) ?G"
  have dG: "distinct (map fst ?G)"
    by (simp add: monthly_groups_def group_by_keys)
  then have dM: "distinct (map fst ?M)"
    using distinct_map_same_set [of ?M ?G fst] by simp
  have "map_of ?M = map_of ?G"
    using dM dG by (simp add: map_of_inject_set)
  then show ?thesis
    by (simp add: monthly_data_untruncated [OF assms])
qed

lemma monthly_data_sorted:
  "sorted (map (\<lambda>g. fst (fst g)) (monthly_data u a b ledger))"
  unfolding monthly_data_def to_list_def sort_asc_def take_map [symmetric]
  by (rule sorted_wrt_take) simp

lemma monthly_data_distinct: "distinct (map fst (monthly_data u a b ledger))"
proof -
  let ?G = "monthly_groups u a b ledger"
  have "distinct (map fst ?G)"
    by (simp add: monthly_groups_def group_by_keys)
  then have "distinct (map fst (sort_key (\<lambda>g. fst (fst g)) ?G))"
    using distinct_map_same_set [of "sort_key (\<lambda>g. fst (fst g)) ?G" ?G fst] by simp
  then show ?thesis
    unfolding monthly_data_def to_list_def sort_asc_def take_map [symmetric]
    by (rule distinct_take)
qed

lemma monthly_data_keys:
  "fst ` set (monthly_data u a b ledger)
     \<subseteq> month_type ` set (filter (monthly_match u a b) ledger)"
proof -
  have "set (monthly_data u a b ledger) \<subseteq> set (monthly_groups u a b ledger)"
    unfolding monthly_data_def to_list_def sort_asc_def
    using set_take_subset [of 100 "sort_key (\<lambda>g. fst (fst g)) (monthly_groups u a b ledger)"]
    by simp
  then show ?thesis
    by (force simp: monthly_groups_def group_by_member)
qed

lemma monthly_data_no_month_type:
  assumes "\<forall>t \<in> set (filter (monthly_match u a b) ledger). tx_type t \<noteq> ''month''"
  shows "\<forall>g \<in> set (monthly_data u a b ledger). snd (fst g) \<noteq> ''month''"
proof
  fix g assume "g \<in> set (monthly_data u a b ledger)"
  then have "fst g \<in> month_type ` set (filter (monthly_match u a b) ledger)"
    using monthly_data_keys [of u a b ledger] by blast
  then show "snd (fst g) \<noteq> ''month''"
    using assms by (auto simp: month_type_def)
qed

lemma sorted_by_month_ok:
  assumes "sorted (map fst md)"
    and "\<forall>e \<in> set md. map_of (snd e) ''month'' = Some (Str (fst e))"
  shows "sorted_by_month (map snd md) = Inr (map snd md)"
proof -
  have str: "month_str (snd e) = fst e \<and> has_str_month (snd e) \<and>
      map_of (snd e) ''month'' \<noteq> None" if "e \<in> set md" for e
    using assms(2) that by (simp add: month_str_def has_str_month_def)
  have e: "map month_str (map snd md) = map fst md"
    using str by simp
  have "sorted (map month_str (map snd md))"
    unfolding e by (rule assms(1))
  then have "sort_key month_str (map snd md) = map snd md"
    by (rule sort_key_id_if_sorted)
  moreover have "list_all has_str_month (map snd md)"
    using str by (simp add: list_all_iff)
  moreover have "\<not> list_ex (\<lambda>d. map_of d ''month'' = None) (map snd md)"
    using str by (simp add: list_ex_iff)
  ultimately show ?thesis
    by (simp add: sorted_by_month_def)
qed

lemma month_group_value:
  assumes "ty = ''income'' \<or> ty = ''expense''"
  shows "(case map_of (group_by month_type tx_amount docs) (k, ty) of
            Some v \<Rightarrow> Some (Num v)
          | None \<Rightarrow> map_of (new_month_record k) ty)
         = Some (Num (sum_list (map tx_amount
             (filter (\<lambda>t. take 7 (tx_date t) = k \<and> tx_type t = ty) docs))))"
proof -
  have f: "filter (\<lambda>t. month_type t = (k, ty)) docs
             = filter (\<lambda>t. take 7 (tx_date t) = k \<and> tx_type t = ty) docs"
    by (simp add: month_type_def)
  show ?thesis
  proof (cases "(k, ty) \<in> month_type ` set docs")
    case True
    then show ?thesis
      by (simp add: group_by_lookup f)
  next
    case False
    then have "\<forall>t \<in> set docs. month_type t \<noteq> (k, ty)"
      by (metis image_eqI)
    then have "filter (\<lambda>t. month_type t = (k, ty)) docs = []"
      by (simp add: filter_empty_conv)
    with False assms show ?thesis
      unfolding f [symmetric] by (auto simp: group_by_lookup new_month_record_def)
  qed
qed

lemma get_analytics_returns:
  assumes "\<forall>t \<in> set (filter (monthly_match u (month_or_default sp (lookback_month clk))
                    (month_or_default ep (now_month clk))) (transactions s)).
             tx_type t \<noteq> ''month''"
  shows "get_analytics clk sp ep u s =
    (Inr \<lparr>category_breakdown = map (\<lambda>c. \<lparr>be_category = fst c, be_amount = snd c\<rparr>)
            (category_data u (month_or_default sp (lookback_month clk))
               (month_or_default ep (now_month clk)) (transactions s)),
          monthly_trend = map snd (months_dict_of
            (monthly_data u (month_or_default sp (lookback_month clk))
               (month_or_default ep (now_month clk)) (transactions s))),
          an_start_month = month_or_default sp (lookback_month clk),
          an_end_month = month_or_default ep (now_month clk)\<rparr>, s)"
proof -
  let ?a = "month_or_default sp (lookback_month clk)"
  let ?b = "month_or_default ep (now_month clk)"
  let ?M = "monthly_data u ?a ?b (transactions s)"
  note sM = monthly_data_sorted [of u ?a ?b "transactions s"]
  note dM = monthly_data_distinct [of u ?a ?b "transactions s"]
  note nM = monthly_data_no_month_type [OF assms]
  note keys = months_dict_of_keys [OF sM]
  have "map_of (snd e) ''month'' = Some (Str (fst e))" if "e \<in> set (months_dict_of ?M)" for e
  proof -
    have "map_of (months_dict_of ?M) (fst e) = Some (snd e)"
      using that keys by simp
    from months_dict_of_records [OF sM dM nM this] show ?thesis
      by simp
  qed
  with keys have "sorted_by_month (map snd (months_dict_of ?M)) = Inr (map snd (months_dict_of ?M))"
    by (intro sorted_by_month_ok) auto
  then show ?thesis
    by (simp add: get_analytics_def Let_def)
qed

lemma length_months_dict_of: "length (months_dict_of items) \<le> length items"
proof (induction items rule: rev_induct)
  case Nil
  then show ?case by (simp add: months_dict_of_def)
next
  case (snoc x items)
  obtain m ty v where x: "x = ((m, ty), v)"
    by (metis prod.collapse)
  have "length (map fst (add_monthly_item x (months_dict_of items)))
          \<le> Suc (length (map fst (months_dict_of items)))"
    unfolding x add_monthly_item_keys by simp
  with snoc.IH show ?case
    by (simp add: months_dict_of_snoc del: add_monthly_item.simps)
qed

lemma length_sorted_by_month: "sorted_by_month ds = Inr trend \<Longrightarrow> length trend = length ds"
  by (auto simp: sorted_by_month_def split: if_splits)

lemma monthly_trend_at_most_100:
  assumes "fst (get_analytics clk sp ep u s) = Inr r"
  shows "length (monthly_trend r) \<le> 100"
proof -
  let ?M = "monthly_data u (month_or_default sp (lookback_month clk))
              (month_or_default ep (now_month clk)) (transactions s)"
  from assms obtain trend where t: "sorted_by_month (map snd (months_dict_of ?M)) = Inr trend"
    and r: "monthly_trend r = trend"
    by (auto simp: get_analytics_def Let_def split: sum.splits)
  have "length trend = length (months_dict_of ?M)"
    using length_sorted_by_month [OF t] by simp
  also have "\<dots> \<le> length ?M"
    by (rule length_months_dict_of)
  also have "\<dots> \<le> 100"
    by (simp add: monthly_data_def to_list_def)
  finally show ?thesis
    by (simp add: r)
qed

text \<open>
  C3 (amended). Let \<open>docs\<close> be the user's transactions inside the date range. If they
  fall into at most 100 groups by (month, type), the month being the first seven characters
  of the date, and none of them has the type \<open>month\<close>, then \<open>get_analytics\<close> returns, and
  \<open>monthly_trend\<close> holds exactly one record per month in which the user has a transaction
  in the range, in ascending order of the month string (a month without activity has no
  record); in each record \<open>income\<close> and \<open>expense\<close> are the sums of the amounts of that
  month's income-type and expense-type transactions in the range, 0 when there is none.
\<close>

theorem monthly_trend_one_record_per_month:
  assumes "docs = filter (monthly_match u (month_or_default sp (lookback_month clk))
                    (month_or_default ep (now_month clk))) (transactions s)"
    and "card (month_type ` set docs) \<le> 100"
    and "\<forall>t \<in> set docs. tx_type t \<noteq> ''month''"
  shows "\<exists>r. get_analytics clk sp ep u s = (Inr r, s) \<and>
           map (\<lambda>d. map_of d ''month'') (monthly_trend r)
             = map (\<lambda>m. Some (Str m))
                 (sorted_list_of_set ((\<lambda>t. take 7 (tx_date t)) ` set docs)) \<and>
           (\<forall>d \<in> set (monthly_trend r). \<forall>m. map_of d ''month'' = Some (Str m) \<longrightarrow>
              map_of d ''income'' = Some (Num (sum_list (map tx_amount
                (filter (\<lambda>t. take 7 (tx_date t) = m \<and> tx_type t = ''income'') docs)))) \<and>
              map_of d ''expense'' = Some (Num (sum_list (map tx_amount
                (filter (\<lambda>t. take 7 (tx_date t) = m \<and> tx_type t = ''expense'') docs)))))"
proof -
  define a where "a = month_or_default sp (lookback_month clk)"
  define b where "b = month_or_default ep (now_month clk)"
  define M where "M = monthly_data u a b (transactions s)"
  define md where "md = months_dict_of M"
  let ?G = "monthly_groups u a b (transactions s)"
  have docs: "docs = filter (monthly_match u a b) (transactions s)"
    by (simp add: assms(1) a_def b_def)
  have card: "card (month_type ` set (filter (monthly_match u a b) (transactions s))) \<le> 100"
    using assms(2) by (simp add: docs)
  have G: "?G = group_by month_type tx_amount docs"
    by (simp add: monthly_groups_def docs)
  have M: "M = sort_key (\<lambda>g. fst (fst g)) ?G"
    unfolding M_def by (rule monthly_data_untruncated [OF card])
  have sM: "sorted (map (\<lambda>g. fst (fst g)) M)"
    by (simp add: M)
  have dM: "distinct (map fst M)"
    using distinct_map_same_set [of M ?G fst] by (simp add: M G group_by_keys)
  have setM: "fst ` set M = month_type ` set docs"
    by (simp add: M G group_by_keys flip: set_map)
  have nM: "\<forall>g \<in> set M. snd (fst g) \<noteq> ''month''"
  proof
    fix g assume "g \<in> set M"
    then have "fst g \<in> month_type ` set docs"
      using setM by blast
    then show "snd (fst g) \<noteq> ''month''"
      using assms(3) by (auto simp: month_type_def)
  qed
  have lookM: "map_of M k = map_of (group_by month_type tx_amount docs) k" for k
    unfolding M_def monthly_data_lookup [OF card] G ..
  note keys = months_dict_of_keys [OF sM, folded md_def]
  have months: "set (map fst md) = (\<lambda>t. take 7 (tx_date t)) ` set docs"
  proof -
    have "set (map fst md) = fst ` fst ` set M"
      using keys by (simp add: image_image)
    also have "\<dots> = fst ` month_type ` set docs"
      by (simp only: setM)
    also have "\<dots> = (\<lambda>t. take 7 (tx_date t)) ` set docs"
      by (simp add: image_image month_type_def)
    finally show ?thesis .
  qed
  have rec: "map_of d ''month'' = Some (Str k) \<and>
      map_of d ''income'' = Some (Num (sum_list (map tx_amount
        (filter (\<lambda>t. take 7 (tx_date t) = k \<and> tx_type t = ''income'') docs)))) \<and>
      map_of d ''expense'' = Some (Num (sum_list (map tx_amount
        (filter (\<lambda>t. take 7 (tx_date t) = k \<and> tx_type t = ''expense'') docs))))"
    if "(k, d) \<in> set md" for k d
  proof -
    have "map_of md k = Some d"
      using that keys by simp
    from months_dict_of_records [OF sM dM nM this [unfolded md_def]]
    have r: "map_of d ''month'' = Some (Str k)"
      and t: "ty \<noteq> ''month'' \<Longrightarrow> map_of d ty =
          (case map_of (group_by month_type tx_amount docs) (k, ty) of
             Some v \<Rightarrow> Some (Num v) | None \<Rightarrow> map_of (new_month_record k) ty)" for ty
      by (simp_all add: lookM)
    show ?thesis
      using r t [of "''income''"] t [of "''expense''"]
      by (simp add: month_group_value)
  qed
  have srt: "sorted_by_month (map snd md) = Inr (map snd md)"
    using keys rec by (intro sorted_by_month_ok) auto
  let ?r = "\<lparr>category_breakdown = map (\<lambda>c. \<lparr>be_category = fst c, be_amount = snd c\<rparr>)
                (category_data u a b (transactions s)),
            monthly_trend = map snd md, an_start_month = a, an_end_month = b\<rparr>"
  have ret: "get_analytics clk sp ep u s = (Inr ?r, s)"
    using srt by (simp add: get_analytics_def Let_def a_def b_def md_def M_def)
  have c1: "map (\<lambda>d. map_of d ''month'') (monthly_trend ?r)
      = map (\<lambda>m. Some (Str m)) (sorted_list_of_set ((\<lambda>t. take 7 (tx_date t)) ` set docs))"
  proof -
    have "map fst md = sorted_list_of_set ((\<lambda>t. take 7 (tx_date t)) ` set docs)"
      using keys months by (intro sorted_distinct_set_unique) simp_all
    moreover have "map (\<lambda>d. map_of d ''month'') (map snd md) = map (\<lambda>m. Some (Str m)) (map fst md)"
      using rec by auto
    ultimately show ?thesis
      by simp
  qed
  have c2: "\<forall>d \<in> set (monthly_trend ?r). \<forall>m. map_of d ''month'' = Some (Str m) \<longrightarrow>
      map_of d ''income'' = Some (Num (sum_list (map tx_amount
        (filter (\<lambda>t. take 7 (tx_date t) = m \<and> tx_type t = ''income'') docs)))) \<and>
      map_of d ''expense'' = Some (Num (sum_list (map tx_amount
        (filter (\<lambda>t. take 7 (tx_date t) = m \<and> tx_type t = ''expense'') docs))))"
    using rec by auto
  from ret c1 c2 show ?thesis
    by blast
qed

text \<open>The rent ledger: every payment lies inside January 2016 to May 2024, and the
  payments fall into 101 different months.\<close>

lemma rent_ledger_in_range:
  "filter (monthly_match ''u1'' ''2016-01'' ''2024-05'') (transactions rent_db)
     = transactions rent_db"
proof -
  have "list_all (\<lambda>d. ''2016-01-01'' \<le> d \<and> d \<le> ''2024-05-31'') rent_dates"
    unfolding rent_dates_def by simp
  then have "\<forall>t \<in> set (transactions rent_db). monthly_match ''u1'' ''2016-01'' ''2024-05'' t"
    by (simp add: rent_db_def monthly_match_def monthly_rent_def list_all_iff)
  then show ?thesis
    by (simp add: filter_id_conv)
qed

lemma rent_ledger_months:
  "card ((\<lambda>t. take 7 (tx_date t)) ` set (transactions rent_db)) = 101"
proof -
  have tr: "transp ((<) :: string \<Rightarrow> string \<Rightarrow> bool)"
    by (rule transp_on_less)
  have "sorted_wrt (<) (map (take 7) rent_dates)"
    unfolding rent_dates_def by (simp add: sorted_wrt2 [OF tr] sorted_wrt1 del: sorted_wrt.simps)
  then have "distinct (map (take 7) rent_dates)"
    by (simp add: strict_sorted_iff)
  then have "card (set (map (take 7) rent_dates)) = length (map (take 7) rent_dates)"
    by (rule distinct_card)
  moreover have "(\<lambda>t. take 7 (tx_date t)) ` set (transactions rent_db)
      = set (map (take 7) rent_dates)"
    by (simp add: rent_db_def monthly_rent_def image_image)
  moreover have "length rent_dates = 101"
    unfolding rent_dates_def by simp
  ultimately show ?thesis
    by simp
qed

text \<open>
  C3, as the claim states it for every ledger, fails: the monthly aggregation is read with
  \<open>to_list(100)\<close>, so at most 100 (month, type) groups reach the loop. The rent ledger has
  a transaction in each of the 101 months from January 2016 to May 2024, all inside the
  range asked for, and the trend has at most 100 records.
\<close>

theorem monthly_trend_truncated_counterexample:
  "card ((\<lambda>t. take 7 (tx_date t)) `
      set (filter (monthly_match ''u1'' ''2016-01'' ''2024-05'') (transactions rent_db))) = 101 \<and>
   (case fst (get_analytics clock_sep27 (Some ''2016-01'') (Some ''2024-05'') ''u1'' rent_db) of
      Inl e \<Rightarrow> False
    | Inr r \<Rightarrow> an_start_month r = ''2016-01'' \<and> an_end_month r = ''2024-05'' \<and>
        length (monthly_trend r) \<le> 100)"
proof -
  have m: "month_or_default (Some ''2016-01'') x = ''2016-01''"
    "month_or_default (Some ''2024-05'') x = ''2024-05''" for x
    by (simp_all add: month_or_default_def)
  have "\<forall>t \<in> set (transactions rent_db). tx_type t \<noteq> ''month''"
    by (auto simp: rent_db_def monthly_rent_def)
  then have "\<forall>t \<in> set (filter (monthly_match ''u1''
        (month_or_default (Some ''2016-01'') (lookback_month clock_sep27))
        (month_or_default (Some ''2024-05'') (now_month clock_sep27))) (transactions rent_db)).
      tx_type t \<noteq> ''month''"
    by simp
  from get_analytics_returns [OF this]
  obtain r where r: "fst (get_analytics clock_sep27 (Some ''2016-01'') (Some ''2024-05'')
      ''u1'' rent_db) = Inr r" and "an_start_month r = ''2016-01''" "an_end_month r = ''2024-05''"
    by (simp add: m)
  moreover note monthly_trend_at_most_100 [OF r]
  ultimately show ?thesis
    by (simp add: rent_ledger_in_range rent_ledger_months)
qed

text \<open>Witness for C3: March 2024 on the scenario ledger.\<close>

theorem monthly_trend_one_record_per_month_witness:
  "card (month_type ` set (filter (monthly_match ''u1'' ''2024-03'' ''2024-03'')
      (transactions scenario_db))) \<le> 100 \<and>
   list_all (\<lambda>t. tx_type t \<noteq> ''month'')
     (filter (monthly_match ''u1'' ''2024-03'' ''2024-03'') (transactions scenario_db)) \<and>
   fst (get_analytics clock_sep27 (Some ''2024-03'') (Some ''2024-03'') ''u1'' scenario_db) =
     Inr \<lparr>category_breakdown = [\<lparr>be_category = ''Food'', be_amount = 150\<rparr>],
          monthly_trend = [[(''month'', Str ''2024-03''), (''income'', Num 3000),
                            (''expense'', Num 150)]],
          an_start_month = ''2024-03'', an_end_month = ''2024-03''\<rparr>"
proof -
  have m: "month_or_default (Some ''2024-03'') x = ''2024-03''" for x
    by (simp add: month_or_default_def)
  have h1: "card (month_type ` set (filter (monthly_match ''u1'' ''2024-03'' ''2024-03'')
      (transactions scenario_db))) \<le> 100"
    by code_simp
  have h2: "list_all (\<lambda>t. tx_type t \<noteq> ''month'')
     (filter (monthly_match ''u1'' ''2024-03'' ''2024-03'') (transactions scenario_db))"
    by code_simp
  have h2': "\<forall>t \<in> set (filter (monthly_match ''u1'' ''2024-03'' ''2024-03'')
      (transactions scenario_db)). tx_type t \<noteq> ''month''"
    using h2 by (simp add: list_all_iff)
  have e: "fst (get_analytics clock_sep27 (Some ''2024-03'') (Some ''2024-03'') ''u1'' scenario_db) =
     Inr \<lparr>category_breakdown = [\<lparr>be_category = ''Food'', be_amount = 150\<rparr>],
          monthly_trend = [[(''month'', Str ''2024-03''), (''income'', Num 3000),
                            (''expense'', Num 150)]],
          an_start_month = ''2024-03'', an_end_month = ''2024-03''\<rparr>"
    by code_simp
  note t = monthly_trend_one_record_per_month
    [of _ "''u1''" "Some ''2024-03''" clock_sep27 "Some ''2024-03''" scenario_db,
     unfolded m, OF refl h1 h2']
  show ?thesis
    using t h1 h2 e by blast
qed

subsection \<open>The category breakdown\<close>










end
